theory Spec2Isabelle
  imports Main "HOL-Library.AList" "HOL-Library.Log_Nat"
begin

section \<open>Text\<close>

text \<open>
  The pipeline of \<^verbatim>\<open>download_imdb_data_auto.py\<close> reads decoded text. A \<^typ>\<open>char\<close> stands
  for one code point below 256 and a \<^typ>\<open>string\<close> for a Python \<^verbatim>\<open>str\<close> over those code
  points; text with code points from 256 on is not covered by this development.
\<close>

definition TAB :: char where
  "TAB = CHR 0x09"

definition NEWLINE :: char where
  "NEWLINE = CHR 0x0A"

text \<open>The two-character token \<^verbatim>\<open>'\\N'\<close> of the source: a backslash and a capital N.\<close>

definition BACKSLASH_N :: string where
  "BACKSLASH_N = [CHR 0x5C, CHR ''N'']"

text \<open>
  \<^verbatim>\<open>str.isspace\<close> on the code points below 256: 0x09 to 0x0D, 0x1C to 0x1F, 0x20, 0x85
  and 0xA0. This is what \<^verbatim>\<open>str.strip()\<close> without argument removes.
\<close>

definition str_space :: "char \<Rightarrow> bool" where
  "str_space c \<longleftrightarrow> c \<in> set [CHR 0x09, CHR 0x0A, CHR 0x0B, CHR 0x0C, CHR 0x0D,
     CHR 0x1C, CHR 0x1D, CHR 0x1E, CHR 0x1F, CHR 0x20, CHR 0x85, CHR 0xA0]"

definition strip :: "string \<Rightarrow> string" where
  "strip s = rev (dropWhile str_space (rev (dropWhile str_space s)))"

text \<open>
  \<^verbatim>\<open>s.split(sep)\<close> for a one-character separator: every occurrence of the separator
  cuts, empty pieces are kept, and the result is never the empty list (so the first
  case of the inner distinction is never taken).
\<close>

fun split_on :: "char \<Rightarrow> string \<Rightarrow> string list" where
  "split_on sep [] = [[]]"
| "split_on sep (c # cs) =
     (if c = sep then [] # split_on sep cs
      else
        (case split_on sep cs of
           [] \<Rightarrow> [[c]]
         | p # ps \<Rightarrow> (c # p) # ps))"

text \<open>\<^verbatim>\<open>sep.join(xs)\<close>.\<close>

fun join :: "string \<Rightarrow> string list \<Rightarrow> string" where
  "join sep [] = []"
| "join sep [x] = x"
| "join sep (x # y # ys) = x @ sep @ join sep (y # ys)"

text \<open>\<^verbatim>\<open>s.replace(a, b)\<close> for one-character \<open>a\<close> and \<open>b\<close>.\<close>

definition replace_char :: "char \<Rightarrow> char \<Rightarrow> string \<Rightarrow> string" where
  "replace_char a b s = map (\<lambda>c. if c = a then b else c) s"

text \<open>The fields of a line: \<^verbatim>\<open>line.strip().split('\t')\<close>.\<close>

definition parts_of :: "string \<Rightarrow> string list" where
  "parts_of line = split_on TAB (strip line)"

section \<open>Dictionaries\<close>

text \<open>
  A Python \<^verbatim>\<open>dict\<close> is an association list in insertion order with distinct keys:
  assignment replaces the value of a present key in place and appends a new key at the
  end, which is \<^const>\<open>AList.update\<close>.
\<close>

type_synonym ('k, 'v) dict = "('k \<times> 'v) list"

definition dict_get :: "('k, 'v) dict \<Rightarrow> 'k \<Rightarrow> 'v option" where
  "dict_get d k = map_of d k"

definition dict_in :: "'k \<Rightarrow> ('k, 'v) dict \<Rightarrow> bool" where
  "dict_in k d \<longleftrightarrow> map_of d k \<noteq> None"

definition dict_set :: "('k, 'v) dict \<Rightarrow> 'k \<Rightarrow> 'v \<Rightarrow> ('k, 'v) dict" where
  "dict_set d k v = AList.update k v d"

definition dict_del :: "('k, 'v) dict \<Rightarrow> 'k \<Rightarrow> ('k, 'v) dict" where
  "dict_del d k = AList.delete k d"

text \<open>\<^verbatim>\<open>d.get(k, default)\<close>.\<close>

definition dict_get_default :: "('k, 'v) dict \<Rightarrow> 'k \<Rightarrow> 'v \<Rightarrow> 'v" where
  "dict_get_default d k dflt = (case map_of d k of None \<Rightarrow> dflt | Some v \<Rightarrow> v)"

section \<open>Input streams\<close>

text \<open>
  Each loader skips the header line and then iterates over the lines of a gzip text
  stream inside \<^verbatim>\<open>try: ... except EOFError\<close>. The stream is modelled from the first line
  after the header: the lines the iteration delivers, and how it ends, normally or with
  the \<^verbatim>\<open>EOFError\<close> that a truncated gzip file raises. The progress messages and the row
  counter that only feeds them are left out. A file that cannot be opened, a header that
  cannot be read and a failure of the stream other than \<^verbatim>\<open>EOFError\<close> (invalid UTF-8,
  corrupted compressed data) are raised outside the \<^verbatim>\<open>try\<close> or are not caught by it; they
  end the run in \<^verbatim>\<open>main\<close> and are not part of this model.
\<close>

datatype stream_end = EndOfFile | RaisesEOFError

datatype gz_stream = GzStream (delivered: "string list") (ending: stream_end)

section \<open>load_languages_and_countries\<close>

record locale_state =
  languages :: "(string, string) dict"
  original_languages :: "(string, string) dict"
  countries :: "(string, string) dict"
  original_countries :: "(string, string) dict"

text \<open>
  The language block of the loop body (source lines 193 to 201) and the country block
  (lines 204 to 212), each on the two dictionaries it reads and writes.
\<close>

definition language_block :: "string \<Rightarrow> string \<Rightarrow> bool \<Rightarrow> locale_state \<Rightarrow> locale_state" where
  "language_block tconst language is_original st =
     (if language \<noteq> [] then
        if language = ''en'' then
          st\<lparr>languages := dict_set (languages st) tconst ''en'',
             original_languages :=
               (if dict_in tconst (original_languages st)
                then dict_del (original_languages st) tconst
                else original_languages st)\<rparr>
        else if is_original \<and> \<not> dict_in tconst (languages st) then
          st\<lparr>original_languages := dict_set (original_languages st) tconst language\<rparr>
        else if \<not> dict_in tconst (languages st)
                \<and> \<not> dict_in tconst (original_languages st) then
          st\<lparr>languages := dict_set (languages st) tconst language\<rparr>
        else st
      else st)"

definition country_block :: "string \<Rightarrow> string \<Rightarrow> bool \<Rightarrow> locale_state \<Rightarrow> locale_state" where
  "country_block tconst region is_original st =
     (if region \<noteq> [] then
        if region = ''US'' then
          st\<lparr>countries := dict_set (countries st) tconst ''US'',
             original_countries :=
               (if dict_in tconst (original_countries st)
                then dict_del (original_countries st) tconst
                else original_countries st)\<rparr>
        else if is_original \<and> \<not> dict_in tconst (countries st) then
          st\<lparr>original_countries := dict_set (original_countries st) tconst region\<rparr>
        else if \<not> dict_in tconst (countries st)
                \<and> \<not> dict_in tconst (original_countries st) then
          st\<lparr>countries := dict_set (countries st) tconst region\<rparr>
        else st
      else st)"

text \<open>The body of the \<^verbatim>\<open>for line in f\<close> loop (source lines 185 to 212).\<close>

definition akas_line :: "string \<Rightarrow> locale_state \<Rightarrow> locale_state" where
  "akas_line line st =
    (let parts = parts_of line in
     if length parts \<ge> 8 then
       let tconst = parts ! 0;
           region = (if parts ! 3 \<noteq> BACKSLASH_N then parts ! 3 else []);
           language = (if parts ! 4 \<noteq> BACKSLASH_N then parts ! 4 else []);
           is_original = (parts ! 7 = ''1'')
       in country_block tconst region is_original
            (language_block tconst language is_original st)
     else st)"

text \<open>
  The two loops after the pass (source lines 221 to 227):
  \<^verbatim>\<open>for tconst, lang in original.items(): if tconst not in final: final[tconst] = lang\<close>.
\<close>

definition merge_original :: "(string, string) dict \<Rightarrow> (string, string) dict \<Rightarrow> (string, string) dict" where
  "merge_original original final =
     fold (\<lambda>(tconst, v) d. if \<not> dict_in tconst d then dict_set d tconst v else d) original final"

definition akas_init :: locale_state where
  "akas_init = \<lparr>languages = [], original_languages = [], countries = [], original_countries = []\<rparr>"

definition akas_pass :: "gz_stream \<Rightarrow> locale_state" where
  "akas_pass f =
     (case ending f of
        EndOfFile \<Rightarrow> fold akas_line (delivered f) akas_init
      | RaisesEOFError \<Rightarrow> fold akas_line (delivered f) akas_init)"

definition load_languages_and_countries :: "gz_stream \<Rightarrow> (string, string) dict \<times> (string, string) dict" where
  "load_languages_and_countries f =
     (let st = akas_pass f in
      (merge_original (original_languages st) (languages st),
       merge_original (original_countries st) (countries st)))"

section \<open>Numbers: the conversions \<^verbatim>\<open>float()\<close> and \<^verbatim>\<open>int()\<close> and their formatting\<close>

text \<open>
  \<^verbatim>\<open>float(s)\<close> and \<^verbatim>\<open>int(s)\<close> (CPython, IEEE 754 binary64, default settings) accept more
  than plain numerals: surrounding whitespace, a sign, single underscores between
  digits and, for \<^verbatim>\<open>float\<close>, a fraction, an exponent, \<^verbatim>\<open>inf\<close>, \<^verbatim>\<open>infinity\<close> and \<^verbatim>\<open>nan\<close>
  in any letter case. A string outside these forms raises \<^verbatim>\<open>ValueError\<close>, which is the
  result \<open>None\<close> here.
\<close>

text \<open>
  The whitespace the two conversions skip at both ends: 0x09 to 0x0D, 0x20, 0x85 and
  0xA0 (unlike \<^verbatim>\<open>str.strip\<close>, not 0x1C to 0x1F).
\<close>

definition num_space :: "char \<Rightarrow> bool" where
  "num_space c \<longleftrightarrow> c \<in> set [CHR 0x09, CHR 0x0A, CHR 0x0B, CHR 0x0C, CHR 0x0D,
     CHR 0x20, CHR 0x85, CHR 0xA0]"

definition strip_num :: "string \<Rightarrow> string" where
  "strip_num s = rev (dropWhile num_space (rev (dropWhile num_space s)))"

definition is_digit :: "char \<Rightarrow> bool" where
  "is_digit c \<longleftrightarrow> c \<in> set ''0123456789''"

definition digit_val :: "char \<Rightarrow> nat" where
  "digit_val c = length (takeWhile (\<lambda>d. d \<noteq> c) ''0123456789'')"

definition digits_val :: "string \<Rightarrow> nat" where
  "digits_val ds = foldl (\<lambda>n c. 10 * n + digit_val c) 0 ds"

text \<open>
  An underscore is accepted only directly after a digit and directly before a digit;
  the first argument is the previous character (initially the NUL character).
\<close>

fun underscores_ok :: "char \<Rightarrow> string \<Rightarrow> bool" where
  "underscores_ok prev [] = (prev \<noteq> CHR ''_'')"
| "underscores_ok prev (c # cs) =
     ((if c = CHR ''_'' then is_digit prev else if prev = CHR ''_'' then is_digit c else True)
      \<and> underscores_ok c cs)"

definition split_sign :: "string \<Rightarrow> bool \<times> string" where
  "split_sign s =
     (case s of
        [] \<Rightarrow> (False, [])
      | c # cs \<Rightarrow>
          if c = CHR ''-'' then (True, cs)
          else if c = CHR ''+'' then (False, cs)
          else (False, s))"

text \<open>
  No more than 4300 digits are converted (the default of
  \<^verbatim>\<open>sys.get_int_max_str_digits()\<close> since CPython 3.11); a longer numeral raises
  \<^verbatim>\<open>ValueError\<close>.
\<close>

definition int_max_str_digits :: nat where
  "int_max_str_digits = 4300"

definition py_int :: "string \<Rightarrow> int option" where
  "py_int s =
     (let (neg, body) = split_sign (strip_num s);
          ds = filter (\<lambda>c. c \<noteq> CHR ''_'') body
      in if body \<noteq> [] \<and> list_all is_digit ds \<and> underscores_ok (CHR 0x00) body
            \<and> length ds \<le> int_max_str_digits
         then Some (if neg then - int (digits_val ds) else int (digits_val ds))
         else None)"

function str_nat :: "nat \<Rightarrow> string" where
  "str_nat n =
     (if n < 10 then [''0123456789'' ! n]
      else str_nat (n div 10) @ [''0123456789'' ! (n mod 10)])"
  by pat_completeness auto
termination
  by (relation "measure id") auto

declare str_nat.simps [simp del]

text \<open>\<^verbatim>\<open>str(i)\<close>, which is what \<^verbatim>\<open>f"{num_votes}"\<close> writes.\<close>

definition str_int :: "int \<Rightarrow> string" where
  "str_int i = (if i < 0 then CHR ''-'' # str_nat (nat (- i)) else str_nat (nat i))"

text \<open>
  A Python \<^verbatim>\<open>float\<close>: a finite binary64 value as its sign bit and its exact magnitude
  (so that the negative zero is kept), an infinity with its sign, or a NaN.
\<close>

datatype pyfloat = Finite bool rat | Infinite bool | NaN

definition pow2 :: "int \<Rightarrow> rat" where
  "pow2 e = (if 0 \<le> e then 2 ^ nat e else 1 / 2 ^ nat (- e))"

definition pow10 :: "int \<Rightarrow> rat" where
  "pow10 e = (if 0 \<le> e then 10 ^ nat e else 1 / 10 ^ nat (- e))"

text \<open>The integer \<open>e\<close> with \<open>2 ^ e \<le> q < 2 ^ (e + 1)\<close>, for \<open>q > 0\<close>.\<close>

definition floor_log2 :: "rat \<Rightarrow> int" where
  "floor_log2 q =
     (let (a, b) = quotient_of q; d = bitlen a - bitlen b
      in if pow2 d \<le> q then d else d - 1)"

definition round_half_even :: "rat \<Rightarrow> int" where
  "round_half_even x =
     (let f = \<lfloor>x\<rfloor>; r = x - of_int f
      in if r < 1 / 2 then f
         else if 1 / 2 < r then f + 1
         else if even f then f else f + 1)"

text \<open>
  Rounding a non-negative rational to binary64, to nearest with ties to even: 53
  significant bits, the smallest unit \<open>2 ^ -1074\<close> (subnormal numbers), and overflow to
  infinity from \<open>2 ^ 1024\<close> on.
\<close>

definition to_double :: "bool \<Rightarrow> rat \<Rightarrow> pyfloat" where
  "to_double neg q =
     (if q = 0 then Finite neg 0
      else
        let e = floor_log2 q;
            u = max (e - 52) (- 1074);
            v = of_int (round_half_even (q / pow2 u)) * pow2 u
        in if pow2 1024 \<le> v then Infinite neg else Finite neg v)"

definition to_lower :: "char \<Rightarrow> char" where
  "to_lower c =
     (case map_of (zip ''ABCDEFGHIJKLMNOPQRSTUVWXYZ'' ''abcdefghijklmnopqrstuvwxyz'') c of
        None \<Rightarrow> c
      | Some l \<Rightarrow> l)"

text \<open>
  A decimal numeral \<^verbatim>\<open>digits [. digits] [(e|E) [sign] digits]\<close> with at least one digit
  before the exponent: its digits as a natural number and its decimal exponent.
\<close>

definition parse_decimal :: "string \<Rightarrow> (nat \<times> int) option" where
  "parse_decimal s =
     (let ip = takeWhile is_digit s;
          r1 = dropWhile is_digit s;
          (fp, r2) =
            (case r1 of
               [] \<Rightarrow> ([], [])
             | c # cs \<Rightarrow>
                 if c = CHR ''.'' then (takeWhile is_digit cs, dropWhile is_digit cs)
                 else ([], r1))
      in if ip @ fp = [] then None
         else
           (case r2 of
              [] \<Rightarrow> Some (digits_val (ip @ fp), - int (length fp))
            | c # cs \<Rightarrow>
                if c = CHR ''e'' \<or> c = CHR ''E'' then
                  (let (eneg, ds) = split_sign cs
                   in if ds \<noteq> [] \<and> list_all is_digit ds
                      then Some (digits_val (ip @ fp),
                                 (if eneg then - int (digits_val ds) else int (digits_val ds))
                                 - int (length fp))
                      else None)
                else None))"

definition py_float :: "string \<Rightarrow> pyfloat option" where
  "py_float s =
     (if CHR ''_'' \<in> set s \<and> \<not> underscores_ok (CHR 0x00) s then None
      else
        let (neg, body) = split_sign (strip_num (filter (\<lambda>c. c \<noteq> CHR ''_'') s));
            low = map to_lower body
        in if low = ''inf'' \<or> low = ''infinity'' then Some (Infinite neg)
           else if low = ''nan'' then Some NaN
           else
             (case parse_decimal body of
                None \<Rightarrow> None
              | Some (m, e) \<Rightarrow> Some (to_double neg (of_nat m * pow10 e))))"

text \<open>\<^verbatim>\<open>f"{x:.1f}"\<close>: the exact value rounded to one decimal, ties to even.\<close>

definition format_1f :: "pyfloat \<Rightarrow> string" where
  "format_1f x =
     (case x of
        Finite neg q \<Rightarrow>
          (let n = nat (round_half_even (q * 10))
           in (if neg then ''-'' else []) @ str_nat (n div 10) @ ''.'' @ str_nat (n mod 10))
      | Infinite neg \<Rightarrow> (if neg then ''-inf'' else ''inf'')
      | NaN \<Rightarrow> ''nan'')"

section \<open>load_ratings, load_crew, load_names\<close>

text \<open>
  The body of the loop of \<^verbatim>\<open>load_ratings\<close> (source lines 60 to 71). A \<^verbatim>\<open>ValueError\<close> of
  either conversion is caught and the loop continues with the next line, before the
  assignment to the dictionary.
\<close>

definition ratings_line :: "string \<Rightarrow> (string, pyfloat \<times> int) dict \<Rightarrow> (string, pyfloat \<times> int) dict" where
  "ratings_line line ratings =
     (let parts = parts_of line in
      if length parts \<ge> 3 then
        let tconst = parts ! 0 in
        (case py_float (parts ! 1) of
           None \<Rightarrow> ratings
         | Some avg_rating \<Rightarrow>
             (case py_int (parts ! 2) of
                None \<Rightarrow> ratings
              | Some num_votes \<Rightarrow> dict_set ratings tconst (avg_rating, num_votes)))
      else ratings)"


definition load_ratings :: "gz_stream \<Rightarrow> (string, pyfloat \<times> int) dict" where
  "load_ratings f =
     (case ending f of
        EndOfFile \<Rightarrow> fold ratings_line (delivered f) []
      | RaisesEOFError \<Rightarrow> fold ratings_line (delivered f) [])"

definition crew_line :: "string \<Rightarrow> (string, string \<times> string) dict \<Rightarrow> (string, string \<times> string) dict" where
  "crew_line line crew =
     (let parts = parts_of line in
      if length parts \<ge> 3 then
        let tconst = parts ! 0;
            directors = (if parts ! 1 \<noteq> BACKSLASH_N then parts ! 1 else []);
            writers = (if parts ! 2 \<noteq> BACKSLASH_N then parts ! 2 else [])
        in dict_set crew tconst (directors, writers)
      else crew)"

definition load_crew :: "gz_stream \<Rightarrow> (string, string \<times> string) dict" where
  "load_crew f =
     (case ending f of
        EndOfFile \<Rightarrow> fold crew_line (delivered f) []
      | RaisesEOFError \<Rightarrow> fold crew_line (delivered f) [])"

definition names_line :: "string \<Rightarrow> (string, string) dict \<Rightarrow> (string, string) dict" where
  "names_line line names =
     (let parts = parts_of line in
      if length parts \<ge> 2 then
        let nconst = parts ! 0;
            primary_name = parts ! 1
        in dict_set names nconst primary_name
      else names)"

definition load_names :: "gz_stream \<Rightarrow> (string, string) dict" where
  "load_names f =
     (case ending f of
        EndOfFile \<Rightarrow> fold names_line (delivered f) []
      | RaisesEOFError \<Rightarrow> fold names_line (delivered f) [])"

section \<open>load_principals\<close>

text \<open>
  The body of the loop (source lines 143 to 155). The read \<^verbatim>\<open>principals[tconst]\<close> comes
  directly after the key was inserted where it was missing; the \<open>None\<close> case of that
  lookup is written out and is shown below never to be taken.
\<close>

definition principals_line :: "(string, string) dict \<Rightarrow> string \<Rightarrow> (string, string list) dict \<Rightarrow> (string, string list) dict" where
  "principals_line names line principals =
     (let parts = parts_of line in
      if length parts \<ge> 4 then
        let tconst = parts ! 0;
            nconst = parts ! 2;
            category = parts ! 3
        in if category = ''actor'' \<or> category = ''actress'' then
             let name = dict_get_default names nconst ''Unknown'';
                 principals1 =
                   (if \<not> dict_in tconst principals then dict_set principals tconst []
                    else principals)
             in (case dict_get principals1 tconst of
                   None \<Rightarrow> principals1
                 | Some names_so_far \<Rightarrow>
                     if length names_so_far < 3
                     then dict_set principals1 tconst (names_so_far @ [name])
                     else principals1)
           else principals
      else principals)"

text \<open>The dictionary of name lists at the end of the loop.\<close>

definition principals_pass :: "gz_stream \<Rightarrow> (string, string) dict \<Rightarrow> (string, string list) dict" where
  "principals_pass f names =
     (case ending f of
        EndOfFile \<Rightarrow> fold (principals_line names) (delivered f) []
      | RaisesEOFError \<Rightarrow> fold (principals_line names) (delivered f) [])"

text \<open>\<^verbatim>\<open>{k: ', '.join(v) for k, v in principals.items()}\<close> (source line 166).\<close>

definition load_principals :: "gz_stream \<Rightarrow> (string, string) dict \<Rightarrow> (string, string) dict" where
  "load_principals f names = map (\<lambda>(k, v). (k, join '', '' v)) (principals_pass f names)"

text \<open>
  The cast of a title in the words of the specification: among the rows of the
  principals source that have a category field, the rows of that title whose category
  is \<open>actor\<close> or \<open>actress\<close>, in source order; each person id resolved through the names
  index, \<open>Unknown\<close> on a miss; the first three of these names.
\<close>

definition cast_row :: "string \<Rightarrow> string \<Rightarrow> bool" where
  "cast_row t line \<longleftrightarrow>
     4 \<le> length (parts_of line) \<and> parts_of line ! 0 = t
     \<and> (parts_of line ! 3 = ''actor'' \<or> parts_of line ! 3 = ''actress'')"

definition spec_cast :: "(string, string) dict \<Rightarrow> string list \<Rightarrow> string \<Rightarrow> string list" where
  "spec_cast names rows t =
     take 3 (map (\<lambda>line. dict_get_default names (parts_of line ! 2) ''Unknown'')
               (filter (cast_row t) rows))"

section \<open>process_basics\<close>

datatype py_error = KeyError string

text \<open>
  The values that the \<^verbatim>\<open>fout.write\<close> of one qualifying row formats (source lines 257 to
  306), under the names of the source's local variables with the prefix \<open>m_\<close>.
\<close>

record merged_movie =
  m_tconst :: string
  m_primary_title :: string
  m_original :: string
  m_start_year :: string
  m_avg_rating :: pyfloat
  m_num_votes :: int
  m_runtime_minutes :: string
  m_genres_formatted :: string
  m_director_names :: "string list"
  m_writer_names :: "string list"
  m_cast :: string
  m_language :: string
  m_country :: string
  m_is_adult :: string

text \<open>
  The block that the source has once for the directors and once for the writers
  (lines 281 to 285 and 288 to 292): the names of the first three ids that are keys of
  \<open>names\<close>, in order.
\<close>

definition names_of_ids :: "(string, string) dict \<Rightarrow> string \<Rightarrow> string list" where
  "names_of_ids names ids =
     (if ids \<noteq> [] then
        fold (\<lambda>nid acc. case dict_get names nid of None \<Rightarrow> acc | Some n \<Rightarrow> acc @ [n])
          (take 3 (split_on (CHR '','') ids)) []
      else [])"

text \<open>
  One iteration of the loop up to the \<^verbatim>\<open>write\<close>: \<open>Inr None\<close> is a \<^verbatim>\<open>continue\<close>, \<open>Inl\<close> an
  exception that would leave the loop and the function.
\<close>

definition basics_line ::
  "(string, pyfloat \<times> int) dict \<Rightarrow> (string, string \<times> string) dict \<Rightarrow> (string, string) dict \<Rightarrow>
   (string, string) dict \<Rightarrow> (string, string) dict \<Rightarrow> (string, string) dict \<Rightarrow> string \<Rightarrow>
   py_error + merged_movie option" where
  "basics_line ratings crew principals names langs ctries line =
     (let parts = parts_of line in
      if length parts < 9 then Inr None
      else
        let tconst = parts ! 0;
            title_type = parts ! 1;
            primary_title = parts ! 2;
            original_title = parts ! 3;
            is_adult = parts ! 4;
            start_year = parts ! 5;
            runtime_minutes = parts ! 7;
            genres = parts ! 8
        in if title_type \<noteq> ''movie'' then Inr None
           else if \<not> dict_in tconst ratings then Inr None
           else if start_year = BACKSLASH_N \<or> runtime_minutes = BACKSLASH_N
                   \<or> genres = BACKSLASH_N then Inr None
           else
             (case dict_get ratings tconst of
                None \<Rightarrow> Inl (KeyError tconst)
              | Some (avg_rating, num_votes) \<Rightarrow>
                  let (directors_ids, writers_ids) = dict_get_default crew tconst ([], []);
                      director_names = names_of_ids names directors_ids;
                      writer_names = names_of_ids names writers_ids;
                      cast = dict_get_default principals tconst [];
                      language = dict_get_default langs tconst [];
                      country = dict_get_default ctries tconst [];
                      original =
                        (if original_title \<noteq> BACKSLASH_N \<and> original_title \<noteq> primary_title
                         then original_title else []);
                      genres_formatted = replace_char (CHR '','') (CHR ''|'') genres
                  in Inr (Some \<lparr>m_tconst = tconst, m_primary_title = primary_title,
                       m_original = original, m_start_year = start_year,
                       m_avg_rating = avg_rating, m_num_votes = num_votes,
                       m_runtime_minutes = runtime_minutes,
                       m_genres_formatted = genres_formatted,
                       m_director_names = director_names, m_writer_names = writer_names,
                       m_cast = cast, m_language = language, m_country = country,
                       m_is_adult = is_adult\<rparr>)))"

text \<open>
  The string of the \<^verbatim>\<open>fout.write\<close> (source lines 286, 293 and 309 to 311): fourteen
  tab-separated fields and a newline.
\<close>

definition output_fields :: "merged_movie \<Rightarrow> string list" where
  "output_fields m =
     [m_tconst m, m_primary_title m, m_original m, m_start_year m,
      format_1f (m_avg_rating m), str_int (m_num_votes m),
      m_runtime_minutes m @ '' mins.'', m_genres_formatted m,
      (if m_director_names m \<noteq> [] then join '', '' (m_director_names m) else []),
      (if m_writer_names m \<noteq> [] then join '', '' (m_writer_names m) else []),
      m_cast m, m_language m, m_country m, m_is_adult m]"

definition output_line :: "merged_movie \<Rightarrow> string" where
  "output_line m = join [TAB] (output_fields m) @ [NEWLINE]"

text \<open>
  The loop over the lines: the accumulator is the sequence of strings written to the
  output file so far.
\<close>

fun basics_loop ::
  "(string, pyfloat \<times> int) dict \<Rightarrow> (string, string \<times> string) dict \<Rightarrow> (string, string) dict \<Rightarrow>
   (string, string) dict \<Rightarrow> (string, string) dict \<Rightarrow> (string, string) dict \<Rightarrow>
   string list \<Rightarrow> string list \<Rightarrow> py_error + string list" where
  "basics_loop ratings crew principals names langs ctries [] written = Inr written"
| "basics_loop ratings crew principals names langs ctries (line # rest) written =
     (case basics_line ratings crew principals names langs ctries line of
        Inl e \<Rightarrow> Inl e
      | Inr None \<Rightarrow> basics_loop ratings crew principals names langs ctries rest written
      | Inr (Some m) \<Rightarrow>
          basics_loop ratings crew principals names langs ctries rest (written @ [output_line m]))"

definition process_basics ::
  "gz_stream \<Rightarrow> (string, pyfloat \<times> int) dict \<Rightarrow> (string, string \<times> string) dict \<Rightarrow>
   (string, string) dict \<Rightarrow> (string, string) dict \<Rightarrow> (string, string) dict \<Rightarrow>
   (string, string) dict \<Rightarrow> py_error + string list" where
  "process_basics basics_file ratings crew principals names langs ctries =
     (case ending basics_file of
        EndOfFile \<Rightarrow>
          basics_loop ratings crew principals names langs ctries (delivered basics_file) []
      | RaisesEOFError \<Rightarrow>
          basics_loop ratings crew principals names langs ctries (delivered basics_file) [])"

text \<open>What one line of the title-attributes source adds to the output file.\<close>

definition emitted ::
  "(string, pyfloat \<times> int) dict \<Rightarrow> (string, string \<times> string) dict \<Rightarrow> (string, string) dict \<Rightarrow>
   (string, string) dict \<Rightarrow> (string, string) dict \<Rightarrow> (string, string) dict \<Rightarrow> string \<Rightarrow>
   string list" where
  "emitted ratings crew principals names langs ctries line =
     (case basics_line ratings crew principals names langs ctries line of
        Inr (Some m) \<Rightarrow> [output_line m]
      | _ \<Rightarrow> [])"

text \<open>The loading and merging steps of \<^verbatim>\<open>main\<close>, in its order (source lines 336 to 373).\<close>

definition run_pipeline ::
  "gz_stream \<Rightarrow> gz_stream \<Rightarrow> gz_stream \<Rightarrow> gz_stream \<Rightarrow> gz_stream \<Rightarrow> gz_stream \<Rightarrow>
   py_error + string list" where
  "run_pipeline ratings_gz crew_gz names_gz principals_gz akas_gz basics_gz =
     (let ratings = load_ratings ratings_gz;
          crew = load_crew crew_gz;
          names = load_names names_gz;
          principals = load_principals principals_gz names;
          (langs, ctries) = load_languages_and_countries akas_gz
      in process_basics basics_gz ratings crew principals names langs ctries)"

text \<open>A line of tab-separated fields, for writing down concrete inputs.\<close>

definition tsv :: "string list \<Rightarrow> string" where
  "tsv xs = join [TAB] xs"

text \<open>
  A row of the alternate-titles source with the given title id, region, language and
  is-original flag; the other columns (ordering, title, types, attributes) are filled
  with fixed values.
\<close>

definition akas_row :: "string \<Rightarrow> string \<Rightarrow> string \<Rightarrow> string \<Rightarrow> string" where
  "akas_row tconst region language is_original =
     tsv [tconst, ''1'', ''Title'', region, language, BACKSLASH_N, BACKSLASH_N, is_original]"

text \<open>
  A row of the title-attributes source with the given title id, title type, adult flag
  and start year; the other columns are those of the end-to-end scenario of the
  specification (primary title \<open>Foo\<close>, no original title, no end year, 90 minutes,
  genres \<open>Drama,Comedy\<close>).
\<close>

definition basics_row :: "string \<Rightarrow> string \<Rightarrow> string \<Rightarrow> string \<Rightarrow> string" where
  "basics_row tconst title_type is_adult start_year =
     tsv [tconst, title_type, ''Foo'', BACKSLASH_N, is_adult, start_year, BACKSLASH_N,
          ''90'', ''Drama,Comedy'']"

section \<open>Properties of the text functions and dictionaries\<close>

lemma split_on_not_Nil [simp]: "split_on sep s \<noteq> []"
  by (induction s) (auto split: list.splits)

lemma split_on_no_sep: "p \<in> set (split_on sep s) \<Longrightarrow> sep \<notin> set p"
proof (induction s arbitrary: p)
  case Nil
  then show ?case by simp
next
  case (Cons c cs)
  obtain q qs where q: "split_on sep cs = q # qs"
    using split_on_not_Nil [of sep cs] by (cases "split_on sep cs") auto
  show ?case
  proof (cases "c = sep")
    case True
    with Cons show ?thesis by auto
  next
    case False
    with Cons.prems q have "p = c # q \<or> p \<in> set qs" by auto
    with Cons.IH q False show ?thesis by auto
  qed
qed

lemma split_on_no_sep_id: "sep \<notin> set b \<Longrightarrow> split_on sep b = [b]"
  by (induction b) auto

lemma split_on_append:
  "split_on sep (a @ sep # b) = split_on sep a @ split_on sep b"
proof (induction a)
  case Nil
  then show ?case by simp
next
  case (Cons c cs)
  obtain q qs where q: "split_on sep cs = q # qs"
    using split_on_not_Nil [of sep cs] by (cases "split_on sep cs") auto
  with Cons show ?case by simp
qed

lemma last_split_on_append: "sep \<notin> set b \<Longrightarrow> last (split_on sep (a @ sep # b)) = b"
  by (simp add: split_on_append split_on_no_sep_id)

lemma join_Cons: "xs \<noteq> [] \<Longrightarrow> join sep (x # xs) = x @ sep @ join sep xs"
  by (cases xs) auto

lemma split_on_prefix: "sep \<notin> set x \<Longrightarrow> split_on sep (x @ sep # r) = x # split_on sep r"
  by (simp add: split_on_append split_on_no_sep_id)

lemma split_on_join:
  "xs \<noteq> [] \<Longrightarrow> \<forall>x\<in>set xs. sep \<notin> set x \<Longrightarrow> split_on sep (join [sep] xs) = xs"
proof (induction xs rule: list_nonempty_induct)
  case (single x)
  then show ?case by (simp add: split_on_no_sep_id)
next
  case (cons x xs)
  then show ?case by (simp add: join_Cons split_on_prefix)
qed

lemma strip_noop: "s \<noteq> [] \<Longrightarrow> \<not> str_space (hd s) \<Longrightarrow> \<not> str_space (last s) \<Longrightarrow> strip s = s"
proof -
  assume a: "s \<noteq> []" "\<not> str_space (hd s)" "\<not> str_space (last s)"
  then have "dropWhile str_space s = s" by (cases s) auto
  moreover from a have "dropWhile str_space (rev s) = rev s"
    by (cases "rev s") (auto simp: last_rev hd_rev dest: arg_cong[where f=hd])
  ultimately show ?thesis by (simp add: strip_def)
qed


lemma hd_join: "xs \<noteq> [] \<Longrightarrow> hd xs \<noteq> [] \<Longrightarrow> hd (join sep xs) = hd (hd xs)"
  by (induction sep xs rule: join.induct) auto

lemma join_eq_Nil: "join sep xs = [] \<Longrightarrow> xs \<noteq> [] \<Longrightarrow> last xs = []"
  by (induction sep xs rule: join.induct) auto

lemma last_join: "xs \<noteq> [] \<Longrightarrow> last xs \<noteq> [] \<Longrightarrow> last (join sep xs) = last (last xs)"
proof (induction sep xs rule: join.induct)
  case (3 sep x y ys)
  then have "join sep (y # ys) \<noteq> []"
    using join_eq_Nil [of sep "y # ys"] by auto
  with 3 show ?case by simp
qed auto

lemma parts_of_tsv:
  assumes "xs \<noteq> []" and "\<forall>x\<in>set xs. TAB \<notin> set x"
    and "hd xs \<noteq> []" and "last xs \<noteq> []"
    and "\<not> str_space (hd (hd xs))" and "\<not> str_space (last (last xs))"
  shows "parts_of (tsv xs) = xs"
proof -
  have ne: "join [TAB] xs \<noteq> []"
    using assms(1,4) join_eq_Nil [of "[TAB]" xs] by auto
  have "strip (join [TAB] xs) = join [TAB] xs"
    using assms ne by (intro strip_noop) (simp_all add: hd_join last_join)
  then show ?thesis
    using assms(1,2) by (simp add: parts_of_def tsv_def split_on_join)
qed

lemma map_of_dict_set [simp]: "map_of (dict_set d k v) = (map_of d)(k \<mapsto> v)"
  by (simp add: dict_set_def update_conv')

lemma map_of_dict_del [simp]: "map_of (dict_del d k) = (map_of d)(k := None)"
  by (simp add: dict_del_def delete_conv')

lemma map_of_merge_original:
  "map_of (merge_original original final) t =
     (case map_of final t of Some v \<Rightarrow> Some v | None \<Rightarrow> map_of original t)"
proof (induction original arbitrary: final)
  case Nil
  then show ?case by (simp add: merge_original_def split: option.splits)
next
  case (Cons p ps)
  obtain k v where p: "p = (k, v)" by (cases p)
  have "merge_original (p # ps) final =
          merge_original ps (if \<not> dict_in k final then dict_set final k v else final)"
    by (simp add: merge_original_def p)
  then show ?case
    by (simp add: Cons.IH p dict_in_def split: option.splits)
qed

lemma language_block_countries [simp]:
  "countries (language_block t l b st) = countries st"
  by (simp add: language_block_def)

lemma country_block_languages [simp]:
  "languages (country_block t r b st) = languages st"
  by (simp add: country_block_def)

lemma language_block_en_stays:
  "map_of (languages st) t = Some ''en'' \<Longrightarrow>
   map_of (languages (language_block k l b st)) t = Some ''en''"
  by (auto simp: language_block_def dict_in_def)

lemma country_block_US_stays:
  "map_of (countries st) t = Some ''US'' \<Longrightarrow>
   map_of (countries (country_block k r b st)) t = Some ''US''"
  by (auto simp: country_block_def dict_in_def)

lemma akas_line_languages_en_stays:
  "map_of (languages st) t = Some ''en'' \<Longrightarrow> map_of (languages (akas_line line st)) t = Some ''en''"
  by (simp add: akas_line_def Let_def language_block_en_stays)

lemma akas_line_countries_US_stays:
  "map_of (countries st) t = Some ''US'' \<Longrightarrow> map_of (countries (akas_line line st)) t = Some ''US''"
  by (simp add: akas_line_def Let_def country_block_US_stays)

lemma akas_line_en:
  "length (parts_of line) \<ge> 8 \<Longrightarrow> parts_of line ! 4 = ''en'' \<Longrightarrow>
   map_of (languages (akas_line line st)) (parts_of line ! 0) = Some ''en''"
  by (simp add: akas_line_def Let_def language_block_def BACKSLASH_N_def)

lemma akas_line_US:
  "length (parts_of line) \<ge> 8 \<Longrightarrow> parts_of line ! 3 = ''US'' \<Longrightarrow>
   map_of (countries (akas_line line st)) (parts_of line ! 0) = Some ''US''"
  by (simp add: akas_line_def Let_def country_block_def BACKSLASH_N_def)

lemma fold_akas_en_stays:
  "map_of (languages st) t = Some ''en'' \<Longrightarrow>
   map_of (languages (fold akas_line ls st)) t = Some ''en''"
  by (induction ls arbitrary: st) (auto simp: akas_line_languages_en_stays)

lemma fold_akas_US_stays:
  "map_of (countries st) t = Some ''US'' \<Longrightarrow>
   map_of (countries (fold akas_line ls st)) t = Some ''US''"
  by (induction ls arbitrary: st) (auto simp: akas_line_countries_US_stays)

lemma fold_akas_en:
  "line \<in> set ls \<Longrightarrow> length (parts_of line) \<ge> 8 \<Longrightarrow> parts_of line ! 4 = ''en'' \<Longrightarrow>
   map_of (languages (fold akas_line ls st)) (parts_of line ! 0) = Some ''en''"
proof (induction ls arbitrary: st)
  case Nil
  then show ?case by simp
next
  case (Cons l ls)
  show ?case
  proof (cases "l = line")
    case True
    with Cons.prems show ?thesis
      by (simp add: fold_akas_en_stays akas_line_en)
  next
    case False
    with Cons show ?thesis by simp
  qed
qed

lemma fold_akas_US:
  "line \<in> set ls \<Longrightarrow> length (parts_of line) \<ge> 8 \<Longrightarrow> parts_of line ! 3 = ''US'' \<Longrightarrow>
   map_of (countries (fold akas_line ls st)) (parts_of line ! 0) = Some ''US''"
proof (induction ls arbitrary: st)
  case Nil
  then show ?case by simp
next
  case (Cons l ls)
  show ?case
  proof (cases "l = line")
    case True
    with Cons.prems show ?thesis
      by (simp add: fold_akas_US_stays akas_line_US)
  next
    case False
    with Cons show ?thesis by simp
  qed
qed

lemma akas_pass_eq: "akas_pass f = fold akas_line (delivered f) akas_init"
  by (simp add: akas_pass_def split: stream_end.splits)

lemma parts_of_akas_row:
  assumes "t \<noteq> []" "\<not> str_space (hd t)" "TAB \<notin> set t" "TAB \<notin> set r" "TAB \<notin> set l"
    and "TAB \<notin> set b" "b \<noteq> []" "\<not> str_space (last b)"
  shows "parts_of (akas_row t r l b) = [t, ''1'', ''Title'', r, l, BACKSLASH_N, BACKSLASH_N, b]"
  unfolding akas_row_def using assms
  by (intro parts_of_tsv) (simp_all add: TAB_def BACKSLASH_N_def)

lemma akas_line_akas_row:
  assumes "t \<noteq> []" "\<not> str_space (hd t)" "TAB \<notin> set t" "TAB \<notin> set r" "TAB \<notin> set l"
    and "TAB \<notin> set b" "b \<noteq> []" "\<not> str_space (last b)"
  shows "akas_line (akas_row t r l b) st =
     country_block t (if r \<noteq> BACKSLASH_N then r else []) (b = ''1'')
       (language_block t (if l \<noteq> BACKSLASH_N then l else []) (b = ''1'') st)"
  by (simp add: akas_line_def Let_def parts_of_akas_row[OF assms])

lemmas akas_eval = load_languages_and_countries_def akas_pass_eq akas_line_akas_row
  TAB_def str_space_def BACKSLASH_N_def language_block_def country_block_def
  akas_init_def dict_in_def dict_set_def dict_del_def dict_get_def merge_original_def

lemma language_block_original_countries [simp]:
  "original_countries (language_block t l b st) = original_countries st"
  by (simp add: language_block_def)

lemma country_block_original_languages [simp]:
  "original_languages (country_block t r b st) = original_languages st"
  by (simp add: country_block_def)

lemma language_block_erased_stays:
  "map_of (languages st) t \<noteq> None \<Longrightarrow> map_of (original_languages st) t = None \<Longrightarrow>
   map_of (languages (language_block k l b st)) t \<noteq> None
   \<and> map_of (original_languages (language_block k l b st)) t = None"
  by (auto simp: language_block_def dict_in_def)

lemma country_block_erased_stays:
  "map_of (countries st) t \<noteq> None \<Longrightarrow> map_of (original_countries st) t = None \<Longrightarrow>
   map_of (countries (country_block k r b st)) t \<noteq> None
   \<and> map_of (original_countries (country_block k r b st)) t = None"
  by (auto simp: country_block_def dict_in_def)

lemma language_block_en_erases:
  "map_of (languages (language_block t ''en'' b st)) t \<noteq> None
   \<and> map_of (original_languages (language_block t ''en'' b st)) t = None"
  by (simp add: language_block_def dict_in_def)

lemma country_block_US_erases:
  "map_of (countries (country_block t ''US'' b st)) t \<noteq> None
   \<and> map_of (original_countries (country_block t ''US'' b st)) t = None"
  by (simp add: country_block_def dict_in_def)

lemma akas_line_language_erased_stays:
  "map_of (languages st) t \<noteq> None \<and> map_of (original_languages st) t = None \<Longrightarrow>
   map_of (languages (akas_line line st)) t \<noteq> None
   \<and> map_of (original_languages (akas_line line st)) t = None"
  using language_block_erased_stays [of st t]
  by (simp add: akas_line_def Let_def)

lemma akas_line_country_erased_stays:
  "map_of (countries st) t \<noteq> None \<and> map_of (original_countries st) t = None \<Longrightarrow>
   map_of (countries (akas_line line st)) t \<noteq> None
   \<and> map_of (original_countries (akas_line line st)) t = None"
  using country_block_erased_stays [of _ t]
  by (simp add: akas_line_def Let_def)

lemma akas_line_en_erases:
  "length (parts_of line) \<ge> 8 \<Longrightarrow> parts_of line ! 4 = ''en'' \<Longrightarrow>
   map_of (languages (akas_line line st)) (parts_of line ! 0) \<noteq> None
   \<and> map_of (original_languages (akas_line line st)) (parts_of line ! 0) = None"
  using language_block_en_erases [of "parts_of line ! 0" _ st]
  by (simp add: akas_line_def Let_def BACKSLASH_N_def)

lemma akas_line_US_erases:
  "length (parts_of line) \<ge> 8 \<Longrightarrow> parts_of line ! 3 = ''US'' \<Longrightarrow>
   map_of (countries (akas_line line st)) (parts_of line ! 0) \<noteq> None
   \<and> map_of (original_countries (akas_line line st)) (parts_of line ! 0) = None"
  using country_block_US_erases [of "parts_of line ! 0"]
  by (simp add: akas_line_def Let_def BACKSLASH_N_def)

lemma fold_akas_language_erased_stays:
  "map_of (languages st) t \<noteq> None \<and> map_of (original_languages st) t = None \<Longrightarrow>
   map_of (languages (fold akas_line ls st)) t \<noteq> None
   \<and> map_of (original_languages (fold akas_line ls st)) t = None"
proof (induction ls arbitrary: st)
  case Nil
  then show ?case by simp
next
  case (Cons l ls)
  have "map_of (languages (fold akas_line ls (akas_line l st))) t \<noteq> None
      \<and> map_of (original_languages (fold akas_line ls (akas_line l st))) t = None"
    by (rule Cons.IH) (rule akas_line_language_erased_stays [OF Cons.prems])
  then show ?case by simp
qed

lemma fold_akas_country_erased_stays:
  "map_of (countries st) t \<noteq> None \<and> map_of (original_countries st) t = None \<Longrightarrow>
   map_of (countries (fold akas_line ls st)) t \<noteq> None
   \<and> map_of (original_countries (fold akas_line ls st)) t = None"
proof (induction ls arbitrary: st)
  case Nil
  then show ?case by simp
next
  case (Cons l ls)
  have "map_of (countries (fold akas_line ls (akas_line l st))) t \<noteq> None
      \<and> map_of (original_countries (fold akas_line ls (akas_line l st))) t = None"
    by (rule Cons.IH) (rule akas_line_country_erased_stays [OF Cons.prems])
  then show ?case by simp
qed

lemma fold_akas_en_erased:
  "line \<in> set ls \<Longrightarrow> length (parts_of line) \<ge> 8 \<Longrightarrow> parts_of line ! 4 = ''en'' \<Longrightarrow>
   map_of (original_languages (fold akas_line ls st)) (parts_of line ! 0) = None"
proof (induction ls arbitrary: st)
  case Nil
  then show ?case by simp
next
  case (Cons l ls)
  show ?case
  proof (cases "l = line")
    case True
    have "map_of (languages (fold akas_line ls (akas_line line st))) (parts_of line ! 0) \<noteq> None
      \<and> map_of (original_languages (fold akas_line ls (akas_line line st))) (parts_of line ! 0)
          = None"
      by (rule fold_akas_language_erased_stays) (rule akas_line_en_erases [OF Cons.prems(2,3)])
    with True show ?thesis by simp
  next
    case False
    with Cons show ?thesis by simp
  qed
qed

lemma fold_akas_US_erased:
  "line \<in> set ls \<Longrightarrow> length (parts_of line) \<ge> 8 \<Longrightarrow> parts_of line ! 3 = ''US'' \<Longrightarrow>
   map_of (original_countries (fold akas_line ls st)) (parts_of line ! 0) = None"
proof (induction ls arbitrary: st)
  case Nil
  then show ?case by simp
next
  case (Cons l ls)
  show ?case
  proof (cases "l = line")
    case True
    have "map_of (countries (fold akas_line ls (akas_line line st))) (parts_of line ! 0) \<noteq> None
      \<and> map_of (original_countries (fold akas_line ls (akas_line line st))) (parts_of line ! 0)
          = None"
      by (rule fold_akas_country_erased_stays) (rule akas_line_US_erases [OF Cons.prems(2,3)])
    with True show ?thesis by simp
  next
    case False
    with Cons show ?thesis by simp
  qed
qed

lemmas akas_pass_eval = akas_pass_eq akas_line_akas_row
  TAB_def str_space_def BACKSLASH_N_def language_block_def country_block_def
  akas_init_def dict_in_def dict_set_def dict_del_def dict_get_def

lemma tentative_then_canonical:
  "akas_pass (GzStream
      [akas_row ''tt1'' ''FR'' ''fr'' ''1'', akas_row ''tt1'' ''US'' ''en'' ''0''] EndOfFile)
   = \<lparr>languages = [(''tt1'', ''en'')], original_languages = [],
      countries = [(''tt1'', ''US'')], original_countries = []\<rparr>"
  by (simp add: akas_pass_eval)

lemma tentative_recorded:
  "akas_pass (GzStream [akas_row ''tt1'' ''FR'' ''fr'' ''1''] EndOfFile)
   = \<lparr>languages = [], original_languages = [(''tt1'', ''fr'')],
      countries = [], original_countries = [(''tt1'', ''FR'')]\<rparr>"
  by (simp add: akas_pass_eval)

section \<open>LocaleResolver\<close>

text \<open>
  Claim C3. Once a row with the canonical value has been read for a title (language
  \<open>en\<close>, region \<open>US\<close>), the mapping returned for that title is the canonical value,
  whatever the other rows are and wherever they stand; and at the end of the pass the
  title has no entry among the original-title tentative values: a tentative value
  recorded before the canonical row is deleted by it, and none is recorded after it. For
  the three orders of the specification: a fallback \<open>fr\<close> followed by \<open>en\<close> gives \<open>en\<close>;
  \<open>en\<close> followed by an original-flagged \<open>fr\<close> gives \<open>en\<close>; an original-flagged \<open>fr\<close>
  followed by a plain \<open>de\<close> gives \<open>fr\<close>. An original-flagged row (\<open>fr\<close>, \<open>FR\<close>) alone
  is held as the tentative value; followed by a row with \<open>en\<close> and \<open>US\<close> it is erased
  and the canonical values are installed.
\<close>

theorem canonical_value_dominates:
  "(\<forall>line\<in>set (delivered f).
      8 \<le> length (parts_of line) \<and> parts_of line ! 4 = ''en'' \<longrightarrow>
      dict_get (fst (load_languages_and_countries f)) (parts_of line ! 0) = Some ''en'')
   \<and> (\<forall>line\<in>set (delivered f).
      8 \<le> length (parts_of line) \<and> parts_of line ! 3 = ''US'' \<longrightarrow>
      dict_get (snd (load_languages_and_countries f)) (parts_of line ! 0) = Some ''US'')
   \<and> (\<forall>line\<in>set (delivered f).
      8 \<le> length (parts_of line) \<and> parts_of line ! 4 = ''en'' \<longrightarrow>
      dict_get (languages (akas_pass f)) (parts_of line ! 0) = Some ''en''
      \<and> dict_get (original_languages (akas_pass f)) (parts_of line ! 0) = None)
   \<and> (\<forall>line\<in>set (delivered f).
      8 \<le> length (parts_of line) \<and> parts_of line ! 3 = ''US'' \<longrightarrow>
      dict_get (countries (akas_pass f)) (parts_of line ! 0) = Some ''US''
      \<and> dict_get (original_countries (akas_pass f)) (parts_of line ! 0) = None)
   \<and> dict_get (fst (load_languages_and_countries (GzStream
        [akas_row ''tt1'' BACKSLASH_N ''fr'' ''0'', akas_row ''tt1'' BACKSLASH_N ''en'' ''0'']
        EndOfFile))) ''tt1'' = Some ''en''
   \<and> dict_get (fst (load_languages_and_countries (GzStream
        [akas_row ''tt1'' BACKSLASH_N ''en'' ''0'', akas_row ''tt1'' BACKSLASH_N ''fr'' ''1'']
        EndOfFile))) ''tt1'' = Some ''en''
   \<and> dict_get (fst (load_languages_and_countries (GzStream
        [akas_row ''tt1'' BACKSLASH_N ''fr'' ''1'', akas_row ''tt1'' BACKSLASH_N ''de'' ''0'']
        EndOfFile))) ''tt1'' = Some ''fr''
   \<and> akas_pass (GzStream [akas_row ''tt1'' ''FR'' ''fr'' ''1''] EndOfFile)
       = \<lparr>languages = [], original_languages = [(''tt1'', ''fr'')],
          countries = [], original_countries = [(''tt1'', ''FR'')]\<rparr>
   \<and> akas_pass (GzStream
        [akas_row ''tt1'' ''FR'' ''fr'' ''1'', akas_row ''tt1'' ''US'' ''en'' ''0''] EndOfFile)
       = \<lparr>languages = [(''tt1'', ''en'')], original_languages = [],
          countries = [(''tt1'', ''US'')], original_countries = []\<rparr>
   \<and> load_languages_and_countries (GzStream
        [akas_row ''tt1'' ''FR'' ''fr'' ''1'', akas_row ''tt1'' ''US'' ''en'' ''0''] EndOfFile)
       = ([(''tt1'', ''en'')], [(''tt1'', ''US'')])"
proof (intro conjI ballI impI)
  fix line
  assume "line \<in> set (delivered f)"
    and "8 \<le> length (parts_of line) \<and> parts_of line ! 4 = ''en''"
  then show "dict_get (fst (load_languages_and_countries f)) (parts_of line ! 0) = Some ''en''"
    by (simp add: load_languages_and_countries_def Let_def dict_get_def map_of_merge_original
        akas_pass_eq fold_akas_en)
next
  fix line
  assume "line \<in> set (delivered f)"
    and "8 \<le> length (parts_of line) \<and> parts_of line ! 3 = ''US''"
  then show "dict_get (snd (load_languages_and_countries f)) (parts_of line ! 0) = Some ''US''"
    by (simp add: load_languages_and_countries_def Let_def dict_get_def map_of_merge_original
        akas_pass_eq fold_akas_US)
next
  fix line
  assume "line \<in> set (delivered f)"
    and "8 \<le> length (parts_of line) \<and> parts_of line ! 4 = ''en''"
  then show "dict_get (languages (akas_pass f)) (parts_of line ! 0) = Some ''en''"
    and "dict_get (original_languages (akas_pass f)) (parts_of line ! 0) = None"
    by (simp_all add: dict_get_def akas_pass_eq fold_akas_en fold_akas_en_erased)
next
  fix line
  assume "line \<in> set (delivered f)"
    and "8 \<le> length (parts_of line) \<and> parts_of line ! 3 = ''US''"
  then show "dict_get (countries (akas_pass f)) (parts_of line ! 0) = Some ''US''"
    and "dict_get (original_countries (akas_pass f)) (parts_of line ! 0) = None"
    by (simp_all add: dict_get_def akas_pass_eq fold_akas_US fold_akas_US_erased)
next
  show "akas_pass (GzStream [akas_row ''tt1'' ''FR'' ''fr'' ''1''] EndOfFile)
       = \<lparr>languages = [], original_languages = [(''tt1'', ''fr'')],
          countries = [], original_countries = [(''tt1'', ''FR'')]\<rparr>"
    by (rule tentative_recorded)
next
  show "akas_pass (GzStream
        [akas_row ''tt1'' ''FR'' ''fr'' ''1'', akas_row ''tt1'' ''US'' ''en'' ''0''] EndOfFile)
       = \<lparr>languages = [(''tt1'', ''en'')], original_languages = [],
          countries = [(''tt1'', ''US'')], original_countries = []\<rparr>"
    by (rule tentative_then_canonical)
next
  show "load_languages_and_countries (GzStream
        [akas_row ''tt1'' ''FR'' ''fr'' ''1'', akas_row ''tt1'' ''US'' ''en'' ''0''] EndOfFile)
       = ([(''tt1'', ''en'')], [(''tt1'', ''US'')])"
    by (simp add: load_languages_and_countries_def tentative_then_canonical
        merge_original_def)
qed (simp_all add: akas_eval)

theorem canonical_value_dominates_witness:
  "akas_row ''tt1'' ''US'' ''en'' ''0'' \<in> set (delivered (GzStream
      [akas_row ''tt1'' ''FR'' ''fr'' ''1'', akas_row ''tt1'' ''US'' ''en'' ''0'',
       akas_row ''tt1'' ''DE'' ''de'' ''1''] RaisesEOFError))
   \<and> 8 \<le> length (parts_of (akas_row ''tt1'' ''US'' ''en'' ''0''))
   \<and> parts_of (akas_row ''tt1'' ''US'' ''en'' ''0'') ! 4 = ''en''
   \<and> parts_of (akas_row ''tt1'' ''US'' ''en'' ''0'') ! 3 = ''US''
   \<and> parts_of (akas_row ''tt1'' ''US'' ''en'' ''0'') ! 0 = ''tt1''
   \<and> dict_get (fst (load_languages_and_countries (GzStream
        [akas_row ''tt1'' ''FR'' ''fr'' ''1'', akas_row ''tt1'' ''US'' ''en'' ''0'',
         akas_row ''tt1'' ''DE'' ''de'' ''1''] RaisesEOFError))) ''tt1'' = Some ''en''
   \<and> dict_get (snd (load_languages_and_countries (GzStream
        [akas_row ''tt1'' ''FR'' ''fr'' ''1'', akas_row ''tt1'' ''US'' ''en'' ''0'',
         akas_row ''tt1'' ''DE'' ''de'' ''1''] RaisesEOFError))) ''tt1'' = Some ''US''
   \<and> dict_get (original_languages (akas_pass (GzStream
        [akas_row ''tt1'' ''FR'' ''fr'' ''1'', akas_row ''tt1'' ''US'' ''en'' ''0'',
         akas_row ''tt1'' ''DE'' ''de'' ''1''] RaisesEOFError))) ''tt1'' = None
   \<and> dict_get (original_countries (akas_pass (GzStream
        [akas_row ''tt1'' ''FR'' ''fr'' ''1'', akas_row ''tt1'' ''US'' ''en'' ''0'',
         akas_row ''tt1'' ''DE'' ''de'' ''1''] RaisesEOFError))) ''tt1'' = None"
proof -
  let ?row = "akas_row ''tt1'' ''US'' ''en'' ''0''"
  let ?f = "GzStream [akas_row ''tt1'' ''FR'' ''fr'' ''1'', ?row,
     akas_row ''tt1'' ''DE'' ''de'' ''1''] RaisesEOFError"
  have p: "parts_of ?row = [''tt1'', ''1'', ''Title'', ''US'', ''en'', BACKSLASH_N, BACKSLASH_N, ''0'']"
    by (rule parts_of_akas_row) (simp_all add: TAB_def str_space_def)
  have m: "?row \<in> set (delivered ?f)"
    by simp
  from canonical_value_dominates [of ?f] m p
  have "dict_get (fst (load_languages_and_countries ?f)) ''tt1'' = Some ''en''"
    and "dict_get (snd (load_languages_and_countries ?f)) ''tt1'' = Some ''US''"
    and "dict_get (original_languages (akas_pass ?f)) ''tt1'' = None"
    and "dict_get (original_countries (akas_pass ?f)) ''tt1'' = None"
    by force+
  with m p show ?thesis
    by simp
qed

text \<open>
  Claim C1. The claim says that a title with no \<open>en\<close> row whose plain row (language
  \<open>fr\<close>) comes before an original-flagged row with another language (\<open>de\<close>) ends with
  the original-flagged value, and likewise for the country. The code keeps the plain
  value that came first: the fallback is stored in \<open>languages\<close> itself, so the test
  \<^verbatim>\<open>tconst not in languages\<close> of the original-flagged branch fails. This evaluates the
  code on those two rows.
\<close>

theorem fallback_before_original_keeps_fallback:
  "load_languages_and_countries (GzStream
     [akas_row ''tt1'' ''FR'' ''fr'' ''0'', akas_row ''tt1'' ''DE'' ''de'' ''1''] EndOfFile)
   = ([(''tt1'', ''fr'')], [(''tt1'', ''FR'')])"
  by (simp add: akas_eval)

section \<open>MergeJoin\<close>

lemma basics_line_Some:
  "basics_line R C P N L K line = Inr (Some m) \<longleftrightarrow>
     9 \<le> length (parts_of line) \<and> parts_of line ! 1 = ''movie''
     \<and> parts_of line ! 5 \<noteq> BACKSLASH_N \<and> parts_of line ! 7 \<noteq> BACKSLASH_N
     \<and> parts_of line ! 8 \<noteq> BACKSLASH_N
     \<and> (\<exists>a v. dict_get R (parts_of line ! 0) = Some (a, v)
          \<and> m = \<lparr>m_tconst = parts_of line ! 0, m_primary_title = parts_of line ! 2,
                m_original =
                  (if parts_of line ! 3 \<noteq> BACKSLASH_N \<and> parts_of line ! 3 \<noteq> parts_of line ! 2
                   then parts_of line ! 3 else []),
                m_start_year = parts_of line ! 5,
                m_avg_rating = a, m_num_votes = v,
                m_runtime_minutes = parts_of line ! 7,
                m_genres_formatted = replace_char (CHR '','') (CHR ''|'') (parts_of line ! 8),
                m_director_names =
                  names_of_ids N (fst (dict_get_default C (parts_of line ! 0) ([], []))),
                m_writer_names =
                  names_of_ids N (snd (dict_get_default C (parts_of line ! 0) ([], []))),
                m_cast = dict_get_default P (parts_of line ! 0) [],
                m_language = dict_get_default L (parts_of line ! 0) [],
                m_country = dict_get_default K (parts_of line ! 0) [],
                m_is_adult = parts_of line ! 4\<rparr>)"
  unfolding basics_line_def Let_def dict_in_def dict_get_def
  by (auto split: option.splits prod.splits)

lemma basics_line_not_Inl: "basics_line R C P N L K line \<noteq> Inl e"
  unfolding basics_line_def Let_def dict_in_def dict_get_def
  by (auto split: option.splits prod.splits)

lemma basics_loop_eq:
  "basics_loop R C P N L K ls w = Inr (w @ concat (map (emitted R C P N L K) ls))"
proof (induction ls arbitrary: w)
  case Nil
  then show ?case by simp
next
  case (Cons l ls)
  show ?case
  proof (cases "basics_line R C P N L K l")
    case (Inl e)
    then show ?thesis using basics_line_not_Inl [of R C P N L K l e] by simp
  next
    case (Inr r)
    then show ?thesis by (cases r) (simp_all add: Cons.IH emitted_def)
  qed
qed

lemma process_basics_eq:
  "process_basics f R C P N L K = Inr (concat (map (emitted R C P N L K) (delivered f)))"
  by (simp add: process_basics_def basics_loop_eq split: stream_end.splits)


lemma basics_line_parts:
  "parts_of line = [t, ty, pt, ot, ad, sy, ey, rt, g] \<Longrightarrow>
   basics_line R C P N L K line =
     (if ty \<noteq> ''movie'' then Inr None
      else if \<not> dict_in t R then Inr None
      else if sy = BACKSLASH_N \<or> rt = BACKSLASH_N \<or> g = BACKSLASH_N then Inr None
      else
        (case dict_get R t of
           None \<Rightarrow> Inl (KeyError t)
         | Some (a, v) \<Rightarrow>
             Inr (Some \<lparr>m_tconst = t, m_primary_title = pt,
               m_original = (if ot \<noteq> BACKSLASH_N \<and> ot \<noteq> pt then ot else []),
               m_start_year = sy, m_avg_rating = a, m_num_votes = v,
               m_runtime_minutes = rt,
               m_genres_formatted = replace_char (CHR '','') (CHR ''|'') g,
               m_director_names = names_of_ids N (fst (dict_get_default C t ([], []))),
               m_writer_names = names_of_ids N (snd (dict_get_default C t ([], []))),
               m_cast = dict_get_default P t [],
               m_language = dict_get_default L t [],
               m_country = dict_get_default K t [],
               m_is_adult = ad\<rparr>)))"
  by (simp add: basics_line_def Let_def split: option.splits prod.splits)

lemma output_line_tsv: "output_line m = tsv (output_fields m) @ [NEWLINE]"
  by (simp add: output_line_def tsv_def)

lemma py_float_8_5: "py_float ''8.5'' = Some (Finite False (17 / 2))"
  by code_simp

lemma py_int_1000: "py_int ''1000'' = Some 1000"
  by code_simp

lemma format_1f_8_5: "format_1f (Finite False (17 / 2)) = ''8.5''"
  by code_simp

lemma str_int_1000: "str_int 1000 = ''1000''"
  by code_simp

lemma ratings_line_parts:
  "parts_of line = [t, r, v] \<Longrightarrow>
   ratings_line line ratings =
     (case py_float r of
        None \<Rightarrow> ratings
      | Some avg_rating \<Rightarrow>
          (case py_int v of
             None \<Rightarrow> ratings
           | Some num_votes \<Rightarrow> dict_set ratings t (avg_rating, num_votes)))"
  by (simp add: ratings_line_def Let_def split: option.splits)

lemma load_ratings_eq: "load_ratings f = fold ratings_line (delivered f) []"
  by (simp add: load_ratings_def split: stream_end.splits)

lemma load_crew_eq: "load_crew f = fold crew_line (delivered f) []"
  by (simp add: load_crew_def split: stream_end.splits)

lemma load_names_eq: "load_names f = fold names_line (delivered f) []"
  by (simp add: load_names_def split: stream_end.splits)

lemma principals_pass_eq: "principals_pass f names = fold (principals_line names) (delivered f) []"
  by (simp add: principals_pass_def split: stream_end.splits)

lemma crew_line_parts:
  "parts_of line = [t, d, w] \<Longrightarrow>
   crew_line line crew =
     dict_set crew t ((if d \<noteq> BACKSLASH_N then d else []), (if w \<noteq> BACKSLASH_N then w else []))"
  by (simp add: crew_line_def Let_def)

lemma names_line_parts:
  "parts_of line = [n, p] \<Longrightarrow> names_line line names = dict_set names n p"
  by (simp add: names_line_def Let_def)

lemmas row_eval = TAB_def str_space_def BACKSLASH_N_def

lemma e_ratings: "load_ratings (GzStream [tsv [''tt0000001'', ''8.5'', ''1000'']] EndOfFile)
   = [(''tt0000001'', (Finite False (17 / 2), 1000))]"
proof -
  have "parts_of (tsv [''tt0000001'', ''8.5'', ''1000'']) = [''tt0000001'', ''8.5'', ''1000'']"
    by (rule parts_of_tsv) (simp_all add: row_eval)
  then show ?thesis
    by (simp add: load_ratings_eq ratings_line_parts py_float_8_5 py_int_1000 dict_set_def)
qed

lemma e_crew: "load_crew (GzStream [tsv [''tt0000001'', ''nm01,nm02'', BACKSLASH_N]] EndOfFile)
   = [(''tt0000001'', (''nm01,nm02'', []))]"
proof -
  have "parts_of (tsv [''tt0000001'', ''nm01,nm02'', BACKSLASH_N]) = [''tt0000001'', ''nm01,nm02'', BACKSLASH_N]"
    by (rule parts_of_tsv) (simp_all add: row_eval)
  then show ?thesis
    by (simp add: load_crew_eq crew_line_parts dict_set_def BACKSLASH_N_def)
qed

lemma e_names: "load_names (GzStream [tsv [''nm01'', ''Ada''], tsv [''nm02'', ''Bob'']] EndOfFile)
   = [(''nm01'', ''Ada''), (''nm02'', ''Bob'')]"
proof -
  have "parts_of (tsv [''nm01'', ''Ada'']) = [''nm01'', ''Ada'']"
    and "parts_of (tsv [''nm02'', ''Bob'']) = [''nm02'', ''Bob'']"
    by (rule parts_of_tsv; simp add: row_eval)+
  then show ?thesis
    by (simp add: load_names_eq names_line_parts dict_set_def)
qed

lemma e_basics:
  "process_basics
     (GzStream [tsv [''tt0000001'', ''movie'', ''Foo'', BACKSLASH_N, ''0'', ''1999'', BACKSLASH_N,
        ''90'', ''Drama,Comedy'']] EndOfFile)
     [(''tt0000001'', (Finite False (17 / 2), 1000))]
     [(''tt0000001'', (''nm01,nm02'', []))]
     []
     [(''nm01'', ''Ada''), (''nm02'', ''Bob'')]
     [] []
   = Inr [tsv [''tt0000001'', ''Foo'', [], ''1999'', ''8.5'', ''1000'', ''90 mins.'',
        ''Drama|Comedy'', ''Ada, Bob'', [], [], [], [], ''0''] @ [NEWLINE]]"
proof -
  have p: "parts_of (tsv [''tt0000001'', ''movie'', ''Foo'', BACKSLASH_N, ''0'', ''1999'', BACKSLASH_N,
        ''90'', ''Drama,Comedy'']) = [''tt0000001'', ''movie'', ''Foo'', BACKSLASH_N, ''0'', ''1999'', BACKSLASH_N,
        ''90'', ''Drama,Comedy'']"
    by (rule parts_of_tsv) (simp_all add: row_eval)
  have n: "names_of_ids [(''nm01'', ''Ada''), (''nm02'', ''Bob'')] ''nm01,nm02'' = [''Ada'', ''Bob'']"
    by (simp add: names_of_ids_def dict_get_def)
  have b: "basics_line [(''tt0000001'', (Finite False (17 / 2), 1000))]
     [(''tt0000001'', (''nm01,nm02'', []))] [] [(''nm01'', ''Ada''), (''nm02'', ''Bob'')] [] []
     (tsv [''tt0000001'', ''movie'', ''Foo'', BACKSLASH_N, ''0'', ''1999'', BACKSLASH_N,
        ''90'', ''Drama,Comedy''])
     = Inr (Some \<lparr>m_tconst = ''tt0000001'', m_primary_title = ''Foo'', m_original = [],
         m_start_year = ''1999'', m_avg_rating = Finite False (17 / 2), m_num_votes = 1000,
         m_runtime_minutes = ''90'', m_genres_formatted = ''Drama|Comedy'',
         m_director_names = [''Ada'', ''Bob''], m_writer_names = [],
         m_cast = [], m_language = [], m_country = [], m_is_adult = ''0''\<rparr>)"
    by (subst basics_line_parts[OF p])
      (simp add: dict_in_def dict_get_def dict_get_default_def n
        names_of_ids_def replace_char_def BACKSLASH_N_def)
  show ?thesis
    by (simp add: process_basics_eq emitted_def b output_line_tsv output_fields_def
        format_1f_8_5 str_int_1000)
qed


text \<open>
  Claim C5. The end-to-end scenario of the specification: the rating row
  \<open>tt0000001, 8.5, 1000\<close>, the crew row with directors \<open>nm01,nm02\<close> and no writers, the
  names \<open>Ada\<close> and \<open>Bob\<close>, no principals and no alternate-title rows give the indexes the
  claim lists, and with them the one title-attributes row produces exactly one output
  line, the one of the specification.
\<close>

theorem end_to_end_scenario:
  "load_ratings (GzStream [tsv [''tt0000001'', ''8.5'', ''1000'']] EndOfFile)
     = [(''tt0000001'', (Finite False (17 / 2), 1000))]
   \<and> load_crew (GzStream [tsv [''tt0000001'', ''nm01,nm02'', BACKSLASH_N]] EndOfFile)
     = [(''tt0000001'', (''nm01,nm02'', []))]
   \<and> load_names (GzStream [tsv [''nm01'', ''Ada''], tsv [''nm02'', ''Bob'']] EndOfFile)
     = [(''nm01'', ''Ada''), (''nm02'', ''Bob'')]
   \<and> load_principals (GzStream [] EndOfFile) [(''nm01'', ''Ada''), (''nm02'', ''Bob'')] = []
   \<and> load_languages_and_countries (GzStream [] EndOfFile) = ([], [])
   \<and> process_basics
       (GzStream [tsv [''tt0000001'', ''movie'', ''Foo'', BACKSLASH_N, ''0'', ''1999'',
          BACKSLASH_N, ''90'', ''Drama,Comedy'']] EndOfFile)
       [(''tt0000001'', (Finite False (17 / 2), 1000))]
       [(''tt0000001'', (''nm01,nm02'', []))]
       []
       [(''nm01'', ''Ada''), (''nm02'', ''Bob'')]
       [] []
     = Inr [tsv [''tt0000001'', ''Foo'', [], ''1999'', ''8.5'', ''1000'', ''90 mins.'',
          ''Drama|Comedy'', ''Ada, Bob'', [], [], [], [], ''0''] @ [NEWLINE]]
   \<and> run_pipeline
       (GzStream [tsv [''tt0000001'', ''8.5'', ''1000'']] EndOfFile)
       (GzStream [tsv [''tt0000001'', ''nm01,nm02'', BACKSLASH_N]] EndOfFile)
       (GzStream [tsv [''nm01'', ''Ada''], tsv [''nm02'', ''Bob'']] EndOfFile)
       (GzStream [] EndOfFile)
       (GzStream [] EndOfFile)
       (GzStream [tsv [''tt0000001'', ''movie'', ''Foo'', BACKSLASH_N, ''0'', ''1999'',
          BACKSLASH_N, ''90'', ''Drama,Comedy'']] EndOfFile)
     = Inr [tsv [''tt0000001'', ''Foo'', [], ''1999'', ''8.5'', ''1000'', ''90 mins.'',
          ''Drama|Comedy'', ''Ada, Bob'', [], [], [], [], ''0''] @ [NEWLINE]]"
proof -
  have p: "load_principals (GzStream [] EndOfFile) [(''nm01'', ''Ada''), (''nm02'', ''Bob'')] = []"
    by (simp add: load_principals_def principals_pass_eq)
  have l: "load_languages_and_countries (GzStream [] EndOfFile) = ([], [])"
    by (simp add: load_languages_and_countries_def akas_pass_eq akas_init_def merge_original_def)
  show ?thesis
    by (simp only: run_pipeline_def Let_def e_ratings e_crew e_names p l e_basics prod.case simp_thms)
qed

lemma emitted_nonempty_iff:
  "emitted R C P N L K line \<noteq> [] \<longleftrightarrow>
     9 \<le> length (parts_of line) \<and> parts_of line ! 1 = ''movie''
     \<and> dict_in (parts_of line ! 0) R
     \<and> parts_of line ! 5 \<noteq> BACKSLASH_N \<and> parts_of line ! 7 \<noteq> BACKSLASH_N
     \<and> parts_of line ! 8 \<noteq> BACKSLASH_N"
  unfolding emitted_def basics_line_def Let_def dict_in_def dict_get_def
  by (auto split: option.splits prod.splits sum.splits)

lemma parts_of_basics_row:
  assumes "t \<noteq> []" "\<not> str_space (hd t)" "TAB \<notin> set t" "TAB \<notin> set ty" "TAB \<notin> set ad"
    and "TAB \<notin> set sy"
  shows "parts_of (basics_row t ty ad sy) =
    [t, ty, ''Foo'', BACKSLASH_N, ad, sy, BACKSLASH_N, ''90'', ''Drama,Comedy'']"
  unfolding basics_row_def using assms
  by (intro parts_of_tsv) (simp_all add: row_eval)

lemma join_Nil_if: "(if xs \<noteq> [] then join sep xs else []) = join sep xs"
  by simp

lemma emitted_basics_row:
  assumes "t \<noteq> []" "\<not> str_space (hd t)" "TAB \<notin> set t" "TAB \<notin> set ty" "TAB \<notin> set ad"
    and "TAB \<notin> set sy"
  shows "emitted R C P N L K (basics_row t ty ad sy) =
    (if ty = ''movie'' \<and> sy \<noteq> BACKSLASH_N then
       (case dict_get R t of
          None \<Rightarrow> []
        | Some (a, v) \<Rightarrow>
            [tsv [t, ''Foo'', [], sy, format_1f a, str_int v, ''90 mins.'', ''Drama|Comedy'',
               join '', '' (names_of_ids N (fst (dict_get_default C t ([], [])))),
               join '', '' (names_of_ids N (snd (dict_get_default C t ([], [])))),
               dict_get_default P t [], dict_get_default L t [], dict_get_default K t [], ad]
             @ [NEWLINE]])
     else [])"
  unfolding emitted_def
  by (subst basics_line_parts[OF parts_of_basics_row[OF assms]])
    (simp add: dict_in_def dict_get_def output_line_tsv output_fields_def replace_char_def
      BACKSLASH_N_def split: option.splits)


lemma emitted_movie_row:
  "emitted [(''tt0000001'', (Finite False (17 / 2), 1000))] [] [] [] [] []
     (basics_row ''tt0000001'' ''movie'' ad ''1999'') =
   (if TAB \<notin> set ad then
      [tsv [''tt0000001'', ''Foo'', [], ''1999'', ''8.5'', ''1000'', ''90 mins.'', ''Drama|Comedy'',
         [], [], [], [], [], ad] @ [NEWLINE]]
    else emitted [(''tt0000001'', (Finite False (17 / 2), 1000))] [] [] [] [] []
     (basics_row ''tt0000001'' ''movie'' ad ''1999''))"
  by (simp add: emitted_basics_row row_eval dict_get_def dict_get_default_def names_of_ids_def
      format_1f_8_5 str_int_1000)

lemma emitted_other_rows:
  "emitted [(''tt0000001'', (Finite False (17 / 2), 1000))] [] [] [] [] []
     (basics_row ''tt0000001'' ''tvSeries'' ''0'' ''1999'') = []"
  "emitted [(''tt0000001'', (Finite False (17 / 2), 1000))] [] [] [] [] []
     (basics_row ''tt0000002'' ''movie'' ''0'' ''1999'') = []"
  "emitted [(''tt0000001'', (Finite False (17 / 2), 1000))] [] [] [] [] []
     (basics_row ''tt0000001'' ''movie'' ''0'' BACKSLASH_N) = []"
  by (simp_all add: emitted_basics_row row_eval dict_get_def)

text \<open>
  Claim C6. The pass over the title-attributes source never raises: its output is the
  concatenation, in source order, of what each line contributes. A line contributes a
  record only if it has the nine fields, its title type is \<open>movie\<close>, its title id is a key
  of the ratings index, and none of release year, runtime and genres is the sentinel; a
  line failing a check contributes nothing and the lines after it are still processed.
  In particular a line whose title type is not \<open>movie\<close> contributes nothing.
\<close>

theorem merge_join_filters:
  "process_basics f R C P N L K = Inr (concat (map (emitted R C P N L K) (delivered f)))
   \<and> (\<forall>line. emitted R C P N L K line \<noteq> [] \<longrightarrow>
         9 \<le> length (parts_of line) \<and> parts_of line ! 1 = ''movie''
         \<and> dict_in (parts_of line ! 0) R
         \<and> parts_of line ! 5 \<noteq> BACKSLASH_N \<and> parts_of line ! 7 \<noteq> BACKSLASH_N
         \<and> parts_of line ! 8 \<noteq> BACKSLASH_N)
   \<and> (\<forall>line. parts_of line ! 1 \<noteq> ''movie'' \<longrightarrow> emitted R C P N L K line = [])"
  using emitted_nonempty_iff [of R C P N L K] by (auto simp: process_basics_eq)



theorem merge_join_filters_witness:
  "parts_of (basics_row ''tt0000001'' ''tvSeries'' ''0'' ''1999'') ! 1 \<noteq> ''movie''
   \<and> emitted [(''tt0000001'', (Finite False (17 / 2), 1000))] [] [] [] [] []
        (basics_row ''tt0000001'' ''tvSeries'' ''0'' ''1999'') = []
   \<and> emitted [(''tt0000001'', (Finite False (17 / 2), 1000))] [] [] [] [] []
        (basics_row ''tt0000001'' ''movie'' ''0'' ''1999'') \<noteq> []
   \<and> parts_of (basics_row ''tt0000001'' ''movie'' ''0'' ''1999'') ! 1 = ''movie''
   \<and> dict_in (parts_of (basics_row ''tt0000001'' ''movie'' ''0'' ''1999'') ! 0)
        [(''tt0000001'', (Finite False (17 / 2), 1000 :: int))]
   \<and> process_basics
        (GzStream
          [basics_row ''tt0000001'' ''tvSeries'' ''0'' ''1999'',
           basics_row ''tt0000002'' ''movie'' ''0'' ''1999'',
           basics_row ''tt0000001'' ''movie'' ''0'' BACKSLASH_N,
           basics_row ''tt0000001'' ''movie'' ''0'' ''1999''] EndOfFile)
        [(''tt0000001'', (Finite False (17 / 2), 1000))] [] [] [] [] []
      = Inr [tsv [''tt0000001'', ''Foo'', [], ''1999'', ''8.5'', ''1000'', ''90 mins.'',
          ''Drama|Comedy'', [], [], [], [], [], ''0''] @ [NEWLINE]]"
proof -
  let ?R = "[(''tt0000001'', (Finite False (17 / 2), 1000 :: int))]"
  let ?E = "[] :: (string, string) dict"
  let ?C = "[] :: (string, string \<times> string) dict"
  let ?tv = "basics_row ''tt0000001'' ''tvSeries'' ''0'' ''1999''"
  let ?mv = "basics_row ''tt0000001'' ''movie'' ''0'' ''1999''"
  let ?f = "GzStream [?tv, basics_row ''tt0000002'' ''movie'' ''0'' ''1999'',
     basics_row ''tt0000001'' ''movie'' ''0'' BACKSLASH_N, ?mv] EndOfFile"
  note inst = merge_join_filters [of ?f ?R ?C ?E ?E ?E ?E]
  have ptv: "parts_of ?tv ! 1 \<noteq> ''movie''"
    by (subst parts_of_basics_row) (simp_all add: row_eval)
  have emv: "emitted ?R ?C ?E ?E ?E ?E ?mv \<noteq> []"
    by (subst emitted_movie_row) (simp add: row_eval)
  from inst ptv have 1: "emitted ?R ?C ?E ?E ?E ?E ?tv = []"
    by blast
  from inst emv have 2: "parts_of ?mv ! 1 = ''movie'' \<and> dict_in (parts_of ?mv ! 0) ?R"
    by blast
  from inst have 3: "process_basics ?f ?R ?C ?E ?E ?E ?E
      = Inr (concat (map (emitted ?R ?C ?E ?E ?E ?E) (delivered ?f)))"
    by blast
  have 4: "concat (map (emitted ?R ?C ?E ?E ?E ?E) (delivered ?f))
     = [tsv [''tt0000001'', ''Foo'', [], ''1999'', ''8.5'', ''1000'', ''90 mins.'',
          ''Drama|Comedy'', [], [], [], [], [], ''0''] @ [NEWLINE]]"
    by (simp add: emitted_other_rows 1) (subst emitted_movie_row, simp add: row_eval)
  show ?thesis
    using ptv emv 1 2 3 4 by simp
qed

lemma emitted_cases:
  "emitted R C P N L K line = [] \<or>
   (\<exists>m. basics_line R C P N L K line = Inr (Some m) \<and> emitted R C P N L K line = [output_line m])"
  by (auto simp: emitted_def split: sum.splits option.splits)

lemma length_concat_emitted:
  "length (concat (map (emitted R C P N L K) ls))
     = length (filter (\<lambda>line. emitted R C P N L K line \<noteq> []) ls)"
proof (induction ls)
  case Nil
  then show ?case by simp
next
  case (Cons l ls)
  with emitted_cases [of R C P N L K l] show ?case by auto
qed

text \<open>
  Claim C10. The pass keeps no record of the title ids it has written: the output has
  one line for every qualifying row, in source order, so two qualifying rows with the
  same title id give two output lines.
\<close>

theorem no_deduplication:
  "process_basics f R C P N L K = Inr (concat (map (emitted R C P N L K) (delivered f)))
   \<and> length (concat (map (emitted R C P N L K) (delivered f)))
       = length (filter (\<lambda>line. emitted R C P N L K line \<noteq> []) (delivered f))
   \<and> (\<forall>l1 l2 m1 m2.
         basics_line R C P N L K l1 = Inr (Some m1) \<and> basics_line R C P N L K l2 = Inr (Some m2)
         \<and> m_tconst m1 = m_tconst m2 \<longrightarrow>
         process_basics (GzStream [l1, l2] e) R C P N L K = Inr [output_line m1, output_line m2])"
  by (simp add: process_basics_eq length_concat_emitted emitted_def)

theorem no_deduplication_witness:
  "basics_line [(''tt0000001'', (Finite False (17 / 2), 1000))] [] [] [] [] []
       (basics_row ''tt0000001'' ''movie'' ''0'' ''1999'')
     = Inr (Some \<lparr>m_tconst = ''tt0000001'', m_primary_title = ''Foo'', m_original = [],
         m_start_year = ''1999'', m_avg_rating = Finite False (17 / 2), m_num_votes = 1000,
         m_runtime_minutes = ''90'', m_genres_formatted = ''Drama|Comedy'',
         m_director_names = [], m_writer_names = [],
         m_cast = [], m_language = [], m_country = [], m_is_adult = ''0''\<rparr>)
   \<and> basics_line [(''tt0000001'', (Finite False (17 / 2), 1000))] [] [] [] [] []
       (basics_row ''tt0000001'' ''movie'' ''1'' ''2001'')
     = Inr (Some \<lparr>m_tconst = ''tt0000001'', m_primary_title = ''Foo'', m_original = [],
         m_start_year = ''2001'', m_avg_rating = Finite False (17 / 2), m_num_votes = 1000,
         m_runtime_minutes = ''90'', m_genres_formatted = ''Drama|Comedy'',
         m_director_names = [], m_writer_names = [],
         m_cast = [], m_language = [], m_country = [], m_is_adult = ''1''\<rparr>)
   \<and> process_basics
        (GzStream [basics_row ''tt0000001'' ''movie'' ''0'' ''1999'',
                   basics_row ''tt0000001'' ''movie'' ''1'' ''2001''] EndOfFile)
        [(''tt0000001'', (Finite False (17 / 2), 1000))] [] [] [] [] []
      = Inr [tsv [''tt0000001'', ''Foo'', [], ''1999'', ''8.5'', ''1000'', ''90 mins.'',
               ''Drama|Comedy'', [], [], [], [], [], ''0''] @ [NEWLINE],
             tsv [''tt0000001'', ''Foo'', [], ''2001'', ''8.5'', ''1000'', ''90 mins.'',
               ''Drama|Comedy'', [], [], [], [], [], ''1''] @ [NEWLINE]]"
proof -
  let ?R = "[(''tt0000001'', (Finite False (17 / 2), 1000 :: int))]"
  let ?E = "[] :: (string, string) dict"
  let ?C = "[] :: (string, string \<times> string) dict"
  let ?m1 = "\<lparr>m_tconst = ''tt0000001'', m_primary_title = ''Foo'', m_original = [],
         m_start_year = ''1999'', m_avg_rating = Finite False (17 / 2), m_num_votes = 1000,
         m_runtime_minutes = ''90'', m_genres_formatted = ''Drama|Comedy'',
         m_director_names = [], m_writer_names = [],
         m_cast = [], m_language = [], m_country = [], m_is_adult = ''0''\<rparr>"
  let ?m2 = "\<lparr>m_tconst = ''tt0000001'', m_primary_title = ''Foo'', m_original = [],
         m_start_year = ''2001'', m_avg_rating = Finite False (17 / 2), m_num_votes = 1000,
         m_runtime_minutes = ''90'', m_genres_formatted = ''Drama|Comedy'',
         m_director_names = [], m_writer_names = [],
         m_cast = [], m_language = [], m_country = [], m_is_adult = ''1''\<rparr>"
  have p1: "parts_of (basics_row ''tt0000001'' ''movie'' ''0'' ''1999'') =
      [''tt0000001'', ''movie'', ''Foo'', BACKSLASH_N, ''0'', ''1999'', BACKSLASH_N, ''90'',
       ''Drama,Comedy'']"
    by (rule parts_of_basics_row) (simp_all add: row_eval)
  have p2: "parts_of (basics_row ''tt0000001'' ''movie'' ''1'' ''2001'') =
      [''tt0000001'', ''movie'', ''Foo'', BACKSLASH_N, ''1'', ''2001'', BACKSLASH_N, ''90'',
       ''Drama,Comedy'']"
    by (rule parts_of_basics_row) (simp_all add: row_eval)
  have b1: "basics_line ?R ?C ?E ?E ?E ?E (basics_row ''tt0000001'' ''movie'' ''0'' ''1999'')
      = Inr (Some ?m1)"
    by (subst basics_line_parts[OF p1])
      (simp add: dict_in_def dict_get_def dict_get_default_def names_of_ids_def replace_char_def
        BACKSLASH_N_def)
  have b2: "basics_line ?R ?C ?E ?E ?E ?E (basics_row ''tt0000001'' ''movie'' ''1'' ''2001'')
      = Inr (Some ?m2)"
    by (subst basics_line_parts[OF p2])
      (simp add: dict_in_def dict_get_def dict_get_default_def names_of_ids_def replace_char_def
        BACKSLASH_N_def)
  have "process_basics
        (GzStream [basics_row ''tt0000001'' ''movie'' ''0'' ''1999'',
                   basics_row ''tt0000001'' ''movie'' ''1'' ''2001''] EndOfFile)
        ?R ?C ?E ?E ?E ?E = Inr [output_line ?m1, output_line ?m2]"
    using no_deduplication [of "GzStream [] EndOfFile" ?R ?C ?E ?E ?E ?E EndOfFile,
        THEN conjunct2, THEN conjunct2, rule_format,
        of "basics_row ''tt0000001'' ''movie'' ''0'' ''1999''" ?m1
           "basics_row ''tt0000001'' ''movie'' ''1'' ''2001''" ?m2] b1 b2
    by simp
  then show ?thesis
    using b1 b2
    by (simp add: output_line_tsv output_fields_def format_1f_8_5 str_int_1000)
qed

lemma join_snoc: "xs \<noteq> [] \<Longrightarrow> join sep (xs @ [x]) = join sep xs @ sep @ x"
  by (induction sep xs rule: join.induct) auto

lemma last_field_output_line:
  assumes "TAB \<notin> set (m_is_adult m)"
  shows "last (split_on TAB (butlast (output_line m))) = m_is_adult m"
proof -
  let ?pre = "[m_tconst m, m_primary_title m, m_original m, m_start_year m,
      format_1f (m_avg_rating m), str_int (m_num_votes m),
      m_runtime_minutes m @ '' mins.'', m_genres_formatted m,
      (if m_director_names m \<noteq> [] then join '', '' (m_director_names m) else []),
      (if m_writer_names m \<noteq> [] then join '', '' (m_writer_names m) else []),
      m_cast m, m_language m, m_country m]"
  have "output_fields m = ?pre @ [m_is_adult m]"
    by (simp add: output_fields_def)
  then have "join [TAB] (output_fields m) = join [TAB] ?pre @ TAB # m_is_adult m"
    using join_snoc [of ?pre "[TAB]" "m_is_adult m"] by simp
  then have "butlast (output_line m) = join [TAB] ?pre @ TAB # m_is_adult m"
    by (simp add: output_line_def butlast_append)
  with assms show ?thesis
    using last_split_on_append [of TAB "m_is_adult m" "join [TAB] ?pre"] by simp
qed

lemma nth_parts_no_tab: "i < length (parts_of line) \<Longrightarrow> TAB \<notin> set (parts_of line ! i)"
  unfolding parts_of_def by (rule split_on_no_sep [of _ TAB "strip line"]) simp

text \<open>
  Claim C4, as amended. The last tab-separated field of every line written is the
  adult column of the row the line was written for, as it stands in the source: the
  pass neither checks nor changes it. So the field is \<open>0\<close> or \<open>1\<close> exactly when the source
  column is.
\<close>

theorem adult_flag_copied_verbatim:
  "process_basics f R C P N L K = Inr out \<Longrightarrow> w \<in> set out \<Longrightarrow>
   \<exists>line\<in>set (delivered f).
     emitted R C P N L K line = [w] \<and> 9 \<le> length (parts_of line)
     \<and> last (split_on TAB (butlast w)) = parts_of line ! 4"
proof -
  assume "process_basics f R C P N L K = Inr out" and "w \<in> set out"
  then obtain line where line: "line \<in> set (delivered f)" and w: "w \<in> set (emitted R C P N L K line)"
    by (auto simp: process_basics_eq)
  with emitted_cases [of R C P N L K line] obtain m
    where m: "basics_line R C P N L K line = Inr (Some m)" and e: "emitted R C P N L K line = [w]"
      and wm: "w = output_line m"
    by auto
  from m have len: "9 \<le> length (parts_of line)" and ad: "m_is_adult m = parts_of line ! 4"
    by (auto simp: basics_line_Some)
  from len have "TAB \<notin> set (parts_of line ! 4)"
    by (intro nth_parts_no_tab) simp
  with ad wm have "last (split_on TAB (butlast w)) = parts_of line ! 4"
    by (simp add: last_field_output_line)
  with line e len show ?thesis by blast
qed

text \<open>
  Claim C4 as stated fails: a qualifying row whose adult column is the sentinel is
  written with the sentinel as its last field.
\<close>

theorem adult_flag_sentinel_counterexample:
  "process_basics (GzStream [basics_row ''tt0000001'' ''movie'' BACKSLASH_N ''1999''] EndOfFile)
     [(''tt0000001'', (Finite False (17 / 2), 1000))] [] [] [] [] []
   = Inr [tsv [''tt0000001'', ''Foo'', [], ''1999'', ''8.5'', ''1000'', ''90 mins.'',
            ''Drama|Comedy'', [], [], [], [], [], BACKSLASH_N] @ [NEWLINE]]
   \<and> last (split_on TAB (butlast
         (tsv [''tt0000001'', ''Foo'', [], ''1999'', ''8.5'', ''1000'', ''90 mins.'',
            ''Drama|Comedy'', [], [], [], [], [], BACKSLASH_N] @ [NEWLINE]))) = BACKSLASH_N
   \<and> BACKSLASH_N \<noteq> ''0'' \<and> BACKSLASH_N \<noteq> ''1''"
proof -
  have 1: "process_basics (GzStream [basics_row ''tt0000001'' ''movie'' BACKSLASH_N ''1999''] EndOfFile)
     [(''tt0000001'', (Finite False (17 / 2), 1000))] [] [] [] [] []
   = Inr [tsv [''tt0000001'', ''Foo'', [], ''1999'', ''8.5'', ''1000'', ''90 mins.'',
            ''Drama|Comedy'', [], [], [], [], [], BACKSLASH_N] @ [NEWLINE]]"
    by (simp add: process_basics_eq) (subst emitted_movie_row, simp add: row_eval)
  have 2: "last (split_on TAB (butlast
         (tsv [''tt0000001'', ''Foo'', [], ''1999'', ''8.5'', ''1000'', ''90 mins.'',
            ''Drama|Comedy'', [], [], [], [], [], BACKSLASH_N] @ [NEWLINE]))) = BACKSLASH_N"
    by (simp add: tsv_def row_eval)
  show ?thesis
    using 1 2 by (simp add: BACKSLASH_N_def)
qed

theorem adult_flag_copied_verbatim_witness:
  "process_basics (GzStream [basics_row ''tt0000001'' ''movie'' ''1'' ''1999''] EndOfFile)
     [(''tt0000001'', (Finite False (17 / 2), 1000))] [] [] [] [] []
   = Inr [tsv [''tt0000001'', ''Foo'', [], ''1999'', ''8.5'', ''1000'', ''90 mins.'',
            ''Drama|Comedy'', [], [], [], [], [], ''1''] @ [NEWLINE]]
   \<and> parts_of (basics_row ''tt0000001'' ''movie'' ''1'' ''1999'') ! 4 = ''1''
   \<and> last (split_on TAB (butlast
         (tsv [''tt0000001'', ''Foo'', [], ''1999'', ''8.5'', ''1000'', ''90 mins.'',
            ''Drama|Comedy'', [], [], [], [], [], ''1''] @ [NEWLINE]))) = ''1''"
proof -
  let ?w = "tsv [''tt0000001'', ''Foo'', [], ''1999'', ''8.5'', ''1000'', ''90 mins.'',
            ''Drama|Comedy'', [], [], [], [], [], ''1''] @ [NEWLINE]"
  let ?f = "GzStream [basics_row ''tt0000001'' ''movie'' ''1'' ''1999''] EndOfFile"
  have 1: "process_basics ?f
     [(''tt0000001'', (Finite False (17 / 2), 1000))] [] [] [] [] [] = Inr [?w]"
    by (simp add: process_basics_eq) (subst emitted_movie_row, simp add: row_eval)
  have 2: "parts_of (basics_row ''tt0000001'' ''movie'' ''1'' ''1999'') ! 4 = ''1''"
    by (subst parts_of_basics_row) (simp_all add: row_eval)
  have "?w \<in> set [?w]"
    by simp
  from adult_flag_copied_verbatim [OF 1 this] 2
  have "last (split_on TAB (butlast ?w)) = ''1''"
    by simp
  with 1 2 show ?thesis
    by simp
qed

section \<open>NameIndex, CrewIndex, RatingsIndex\<close>

lemma principals_line_parts:
  "parts_of line = [t, ord_no, n, c] \<Longrightarrow>
   principals_line names line principals =
     (if c = ''actor'' \<or> c = ''actress'' then
        let name = dict_get_default names n ''Unknown'';
            principals1 =
              (if \<not> dict_in t principals then dict_set principals t [] else principals)
        in (case dict_get principals1 t of
              None \<Rightarrow> principals1
            | Some names_so_far \<Rightarrow>
                if length names_so_far < 3
                then dict_set principals1 t (names_so_far @ [name])
                else principals1)
      else principals)"
  by (simp add: principals_line_def Let_def)

lemma sentinel_not_empty: "BACKSLASH_N \<noteq> []"
  by (simp add: BACKSLASH_N_def)

lemma py_float_sentinel: "py_float BACKSLASH_N = None"
  by code_simp

lemma ratings_line_sentinel:
  "3 \<le> length (parts_of line) \<Longrightarrow> parts_of line ! 1 = BACKSLASH_N \<Longrightarrow>
   ratings_line line ratings = ratings"
  by (simp add: ratings_line_def py_float_sentinel)

lemma crew_line_no_sentinel:
  assumes "\<forall>t d w. map_of crew t = Some (d, w) \<longrightarrow> d \<noteq> BACKSLASH_N \<and> w \<noteq> BACKSLASH_N"
  shows "\<forall>t d w. map_of (crew_line line crew) t = Some (d, w) \<longrightarrow> d \<noteq> BACKSLASH_N \<and> w \<noteq> BACKSLASH_N"
  using assms sentinel_not_empty by (auto simp: crew_line_def Let_def split: if_splits)

lemma fold_crew_line_no_sentinel:
  "\<forall>t d w. map_of crew t = Some (d, w) \<longrightarrow> d \<noteq> BACKSLASH_N \<and> w \<noteq> BACKSLASH_N \<Longrightarrow>
   \<forall>t d w. map_of (fold crew_line ls crew) t = Some (d, w) \<longrightarrow> d \<noteq> BACKSLASH_N \<and> w \<noteq> BACKSLASH_N"
proof (induction ls arbitrary: crew)
  case Nil
  then show ?case by simp
next
  case (Cons l ls)
  have "\<forall>t d w. map_of (fold crew_line ls (crew_line l crew)) t = Some (d, w)
      \<longrightarrow> d \<noteq> BACKSLASH_N \<and> w \<noteq> BACKSLASH_N"
    by (rule Cons.IH) (rule crew_line_no_sentinel [OF Cons.prems])
  then show ?case by simp
qed

lemma load_crew_no_sentinel:
  "dict_get (load_crew f) t = Some (d, w) \<Longrightarrow> d \<noteq> BACKSLASH_N \<and> w \<noteq> BACKSLASH_N"
proof -
  have "\<forall>t d w. map_of (fold crew_line (delivered f) []) t = Some (d, w)
      \<longrightarrow> d \<noteq> BACKSLASH_N \<and> w \<noteq> BACKSLASH_N"
    by (rule fold_crew_line_no_sentinel) simp
  then show "dict_get (load_crew f) t = Some (d, w) \<Longrightarrow> d \<noteq> BACKSLASH_N \<and> w \<noteq> BACKSLASH_N"
    by (simp add: load_crew_eq dict_get_def)
qed


text \<open>
  Claim C2. \<^verbatim>\<open>load_crew\<close> replaces a sentinel field by the empty string and
  \<^verbatim>\<open>load_ratings\<close> skips a row whose rating is the sentinel, but \<^verbatim>\<open>load_names\<close> stores the
  name field as it is. This evaluates the code on a names row whose name is the
  sentinel: the two-character token becomes the entry of the index, and the pipeline
  writes it into the directors field and the cast field of the output.
\<close>

theorem names_sentinel_stored_and_written:
  "load_names (GzStream [tsv [''nm01'', BACKSLASH_N]] EndOfFile) = [(''nm01'', BACKSLASH_N)]
   \<and> run_pipeline
       (GzStream [tsv [''tt0000001'', ''8.5'', ''1000'']] EndOfFile)
       (GzStream [tsv [''tt0000001'', ''nm01'', BACKSLASH_N]] EndOfFile)
       (GzStream [tsv [''nm01'', BACKSLASH_N]] EndOfFile)
       (GzStream [tsv [''tt0000001'', ''1'', ''nm01'', ''actor'']] EndOfFile)
       (GzStream [] EndOfFile)
       (GzStream [basics_row ''tt0000001'' ''movie'' ''0'' ''1999''] EndOfFile)
     = Inr [tsv [''tt0000001'', ''Foo'', [], ''1999'', ''8.5'', ''1000'', ''90 mins.'',
          ''Drama|Comedy'', BACKSLASH_N, [], BACKSLASH_N, [], [], ''0''] @ [NEWLINE]]"
proof -
  have n: "load_names (GzStream [tsv [''nm01'', BACKSLASH_N]] EndOfFile) = [(''nm01'', BACKSLASH_N)]"
  proof -
    have "parts_of (tsv [''nm01'', BACKSLASH_N]) = [''nm01'', BACKSLASH_N]"
      by (rule parts_of_tsv) (simp_all add: row_eval)
    then show ?thesis
      by (simp add: load_names_eq names_line_parts dict_set_def)
  qed
  have c: "load_crew (GzStream [tsv [''tt0000001'', ''nm01'', BACKSLASH_N]] EndOfFile)
      = [(''tt0000001'', (''nm01'', []))]"
  proof -
    have "parts_of (tsv [''tt0000001'', ''nm01'', BACKSLASH_N]) = [''tt0000001'', ''nm01'', BACKSLASH_N]"
      by (rule parts_of_tsv) (simp_all add: row_eval)
    then show ?thesis
      by (simp add: load_crew_eq crew_line_parts dict_set_def BACKSLASH_N_def)
  qed
  have p: "load_principals (GzStream [tsv [''tt0000001'', ''1'', ''nm01'', ''actor'']] EndOfFile)
      [(''nm01'', BACKSLASH_N)] = [(''tt0000001'', BACKSLASH_N)]"
  proof -
    have "parts_of (tsv [''tt0000001'', ''1'', ''nm01'', ''actor'']) = [''tt0000001'', ''1'', ''nm01'', ''actor'']"
      by (rule parts_of_tsv) (simp_all add: row_eval)
    then show ?thesis
      by (simp add: load_principals_def principals_pass_eq principals_line_parts dict_in_def
          dict_set_def dict_get_def dict_get_default_def)
  qed
  have l: "load_languages_and_countries (GzStream [] EndOfFile) = ([], [])"
    by (simp add: load_languages_and_countries_def akas_pass_eq akas_init_def merge_original_def)
  have b: "process_basics (GzStream [basics_row ''tt0000001'' ''movie'' ''0'' ''1999''] EndOfFile)
      [(''tt0000001'', (Finite False (17 / 2), 1000))] [(''tt0000001'', (''nm01'', []))]
      [(''tt0000001'', BACKSLASH_N)] [(''nm01'', BACKSLASH_N)] [] []
     = Inr [tsv [''tt0000001'', ''Foo'', [], ''1999'', ''8.5'', ''1000'', ''90 mins.'',
          ''Drama|Comedy'', BACKSLASH_N, [], BACKSLASH_N, [], [], ''0''] @ [NEWLINE]]"
    by (simp add: process_basics_eq emitted_basics_row row_eval dict_get_def dict_get_default_def
        names_of_ids_def format_1f_8_5 str_int_1000)
  show ?thesis
    by (simp only: run_pipeline_def Let_def e_ratings n c p l b prod.case simp_thms)
qed

section \<open>PrincipalsIndex\<close>

lemma principals_line_map_of:
  "map_of (principals_line names line d) t =
     (if cast_row t line then
        (case map_of d t of
           None \<Rightarrow> Some [dict_get_default names (parts_of line ! 2) ''Unknown'']
         | Some xs \<Rightarrow>
             if length xs < 3
             then Some (xs @ [dict_get_default names (parts_of line ! 2) ''Unknown''])
             else Some xs)
      else map_of d t)"
  by (auto simp: principals_line_def cast_row_def Let_def dict_in_def dict_get_def
      split: option.splits)

lemma principals_lookup_present:
  "dict_get (if \<not> dict_in t principals then dict_set principals t [] else principals) t \<noteq> None"
  by (simp add: dict_get_def dict_in_def)

lemma fold_principals_line_map_of:
  "map_of (fold (principals_line names) ls d) t =
     (case map_of d t of
        None \<Rightarrow> (if filter (cast_row t) ls = [] then None else Some (spec_cast names ls t))
      | Some xs \<Rightarrow>
          Some (xs @ take (3 - length xs)
                  (map (\<lambda>line. dict_get_default names (parts_of line ! 2) ''Unknown'')
                     (filter (cast_row t) ls))))"
proof (induction ls arbitrary: d)
  case Nil
  then show ?case by (simp split: option.splits)
next
  case (Cons l ls)
  have "map_of (fold (principals_line names) (l # ls) d) t
      = map_of (fold (principals_line names) ls (principals_line names l d)) t"
    by simp
  also have "\<dots> = (case map_of (principals_line names l d) t of
        None \<Rightarrow> (if filter (cast_row t) ls = [] then None else Some (spec_cast names ls t))
      | Some xs \<Rightarrow>
          Some (xs @ take (3 - length xs)
                  (map (\<lambda>line. dict_get_default names (parts_of line ! 2) ''Unknown'')
                     (filter (cast_row t) ls))))"
    by (rule Cons.IH)
  also have "\<dots> = (case map_of d t of
        None \<Rightarrow> (if filter (cast_row t) (l # ls) = [] then None
                 else Some (spec_cast names (l # ls) t))
      | Some xs \<Rightarrow>
          Some (xs @ take (3 - length xs)
                  (map (\<lambda>line. dict_get_default names (parts_of line ! 2) ''Unknown'')
                     (filter (cast_row t) (l # ls)))))"
    by (auto simp: principals_line_map_of spec_cast_def take_Cons' Suc_diff_Suc
        numeral_3_eq_3 split: option.splits nat.splits)
  finally show ?case .
qed


lemma principals_example:
  "principals_pass (GzStream
       [tsv [''tt1'', ''1'', ''nmA'', ''actor''],
        tsv [''tt1'', ''2'', ''nmB'', ''director''],
        tsv [''tt1'', ''3'', ''nmC'', ''actress''],
        tsv [''tt1'', ''4'', ''nmD'', ''actor''],
        tsv [''tt1'', ''5'', ''nmE'', ''actress'']] EndOfFile)
       [(''nmA'', ''A''), (''nmB'', ''B''), (''nmC'', ''C''), (''nmD'', ''D''), (''nmE'', ''E'')]
     = [(''tt1'', [''A'', ''C'', ''D''])]"
proof -
  have p: "parts_of (tsv [''tt1'', ''1'', ''nmA'', ''actor'']) = [''tt1'', ''1'', ''nmA'', ''actor'']"
    "parts_of (tsv [''tt1'', ''2'', ''nmB'', ''director'']) = [''tt1'', ''2'', ''nmB'', ''director'']"
    "parts_of (tsv [''tt1'', ''3'', ''nmC'', ''actress'']) = [''tt1'', ''3'', ''nmC'', ''actress'']"
    "parts_of (tsv [''tt1'', ''4'', ''nmD'', ''actor'']) = [''tt1'', ''4'', ''nmD'', ''actor'']"
    "parts_of (tsv [''tt1'', ''5'', ''nmE'', ''actress'']) = [''tt1'', ''5'', ''nmE'', ''actress'']"
    by (rule parts_of_tsv; simp add: row_eval)+
  show ?thesis
    by (simp add: principals_pass_eq p[THEN principals_line_parts] dict_in_def dict_set_def
        dict_get_def dict_get_default_def)
qed

text \<open>
  Claim C7. For every title the list built by the principals pass is the cast in the
  words of the specification: the names of the first three rows of that title, in source
  order, whose category is \<open>actor\<close> or \<open>actress\<close>, resolved through the names index with
  \<open>Unknown\<close> on a miss; a title without such a row has no entry, and rows of any other
  category change nothing. The index returned holds these names joined by a comma and
  a space. Five rows with the categories actor, director, actress, actor, actress and
  the names A to E give the cast A, C, D.
\<close>

theorem cast_is_first_three_in_source_order:
  "dict_get (principals_pass f names) t =
     (if filter (cast_row t) (delivered f) = [] then None
      else Some (spec_cast names (delivered f) t))
   \<and> dict_get (load_principals f names) t =
     (if filter (cast_row t) (delivered f) = [] then None
      else Some (join '', '' (spec_cast names (delivered f) t)))
   \<and> principals_pass (GzStream
       [tsv [''tt1'', ''1'', ''nmA'', ''actor''],
        tsv [''tt1'', ''2'', ''nmB'', ''director''],
        tsv [''tt1'', ''3'', ''nmC'', ''actress''],
        tsv [''tt1'', ''4'', ''nmD'', ''actor''],
        tsv [''tt1'', ''5'', ''nmE'', ''actress'']] EndOfFile)
       [(''nmA'', ''A''), (''nmB'', ''B''), (''nmC'', ''C''), (''nmD'', ''D''), (''nmE'', ''E'')]
     = [(''tt1'', [''A'', ''C'', ''D''])]
   \<and> load_principals (GzStream
       [tsv [''tt1'', ''1'', ''nmA'', ''actor''],
        tsv [''tt1'', ''2'', ''nmB'', ''director''],
        tsv [''tt1'', ''3'', ''nmC'', ''actress''],
        tsv [''tt1'', ''4'', ''nmD'', ''actor''],
        tsv [''tt1'', ''5'', ''nmE'', ''actress'']] EndOfFile)
       [(''nmA'', ''A''), (''nmB'', ''B''), (''nmC'', ''C''), (''nmD'', ''D''), (''nmE'', ''E'')]
     = [(''tt1'', ''A, C, D'')]"
proof -
  have 1: "dict_get (principals_pass f names) t =
     (if filter (cast_row t) (delivered f) = [] then None
      else Some (spec_cast names (delivered f) t))"
    by (simp add: dict_get_def principals_pass_eq fold_principals_line_map_of)
  have "dict_get (load_principals f names) t
      = map_option (join '', '') (dict_get (principals_pass f names) t)"
    by (simp add: load_principals_def dict_get_def map_of_map)
  with 1 have 2: "dict_get (load_principals f names) t =
     (if filter (cast_row t) (delivered f) = [] then None
      else Some (join '', '' (spec_cast names (delivered f) t)))"
    by simp
  show ?thesis
    using 1 2 by (simp add: principals_example load_principals_def)
qed

lemma fold_names_concat:
  "fold (\<lambda>nid acc. case g nid of None \<Rightarrow> acc | Some n \<Rightarrow> acc @ [n]) xs acc
     = acc @ concat (map (\<lambda>nid. case g nid of None \<Rightarrow> [] | Some n \<Rightarrow> [n]) xs)"
  by (induction xs arbitrary: acc) (auto split: option.splits)

lemma names_of_ids_eq:
  "names_of_ids names ids =
     (if ids = [] then []
      else concat (map (\<lambda>nid. case dict_get names nid of None \<Rightarrow> [] | Some n \<Rightarrow> [n])
                    (take 3 (split_on (CHR '','') ids))))"
  by (simp add: names_of_ids_def fold_names_concat)

lemma length_concat_option:
  "length (concat (map (\<lambda>nid. case g nid of None \<Rightarrow> [] | Some n \<Rightarrow> [n]) xs)) \<le> length xs"
  by (induction xs) (auto split: option.splits)

lemma length_names_of_ids: "length (names_of_ids names ids) \<le> 3"
proof (cases "ids = []")
  case True
  then show ?thesis by (simp add: names_of_ids_def)
next
  case False
  have "length (names_of_ids names ids) \<le> length (take 3 (split_on (CHR '','') ids))"
    unfolding names_of_ids_eq using False
    by (simp only: if_False) (rule length_concat_option)
  also have "\<dots> \<le> 3"
    by simp
  finally show ?thesis .
qed

lemma fold_principals_length:
  "map_of (fold (principals_line names) ls []) t = Some xs \<Longrightarrow> length xs \<le> 3"
  by (auto simp: fold_principals_line_map_of spec_cast_def split: if_splits)

text \<open>
  Claim C8. In every record that is written, the list of director names and the list
  of writer names are the names of those of the first three ids of the crew entry that
  are keys of the names index, so each has at most three elements; and at every point
  of the principals pass (after any number of rows) every cast list has at most three
  names, which holds in particular for the lists the cast field is joined from.
\<close>

theorem at_most_three_names:
  "(\<forall>m. basics_line R C P N L K line = Inr (Some m) \<longrightarrow>
      m_director_names m = names_of_ids N (fst (dict_get_default C (m_tconst m) ([], [])))
      \<and> m_writer_names m = names_of_ids N (snd (dict_get_default C (m_tconst m) ([], [])))
      \<and> length (m_director_names m) \<le> 3 \<and> length (m_writer_names m) \<le> 3)
   \<and> names_of_ids N ids =
       (if ids = [] then []
        else concat (map (\<lambda>nid. case dict_get N nid of None \<Rightarrow> [] | Some n \<Rightarrow> [n])
                      (take 3 (split_on (CHR '','') ids))))
   \<and> (\<forall>k t xs. dict_get (fold (principals_line N) (take k (delivered pf)) []) t = Some xs
        \<longrightarrow> length xs \<le> 3)
   \<and> (\<forall>t xs. dict_get (principals_pass pf N) t = Some xs \<longrightarrow> length xs \<le> 3)
   \<and> (\<forall>m. basics_line R C (load_principals pf N) N L K line = Inr (Some m) \<longrightarrow>
        m_cast m = (case dict_get (principals_pass pf N) (m_tconst m) of
                      None \<Rightarrow> [] | Some xs \<Rightarrow> join '', '' xs))"
proof (intro conjI allI impI)
  fix m
  assume m: "basics_line R C P N L K line = Inr (Some m)"
  then show "m_director_names m = names_of_ids N (fst (dict_get_default C (m_tconst m) ([], [])))"
    and "m_writer_names m = names_of_ids N (snd (dict_get_default C (m_tconst m) ([], [])))"
    by (auto simp: basics_line_Some)
  then show "length (m_director_names m) \<le> 3" and "length (m_writer_names m) \<le> 3"
    by (simp_all add: length_names_of_ids)
next
  show "names_of_ids N ids =
       (if ids = [] then []
        else concat (map (\<lambda>nid. case dict_get N nid of None \<Rightarrow> [] | Some n \<Rightarrow> [n])
                      (take 3 (split_on (CHR '','') ids))))"
    by (rule names_of_ids_eq)
next
  fix k t xs
  assume "dict_get (fold (principals_line N) (take k (delivered pf)) []) t = Some xs"
  then show "length xs \<le> 3"
    by (simp add: dict_get_def fold_principals_length)
next
  fix t xs
  assume "dict_get (principals_pass pf N) t = Some xs"
  then show "length xs \<le> 3"
    by (simp add: dict_get_def principals_pass_eq fold_principals_length)
next
  fix m
  assume "basics_line R C (load_principals pf N) N L K line = Inr (Some m)"
  then have "m_cast m = dict_get_default (load_principals pf N) (m_tconst m) []"
    by (auto simp: basics_line_Some)
  then show "m_cast m = (case dict_get (principals_pass pf N) (m_tconst m) of
                      None \<Rightarrow> [] | Some xs \<Rightarrow> join '', '' xs)"
    by (simp add: dict_get_default_def dict_get_def load_principals_def map_of_map
        split: option.splits)
qed


theorem at_most_three_names_witness:
  "basics_line [(''tt0000001'', (Finite False (17 / 2), 1000))]
       [(''tt0000001'', (''nm01,nm02,nm03,nm04'', ''nm02''))]
       (load_principals (GzStream
          [tsv [''tt0000001'', ''1'', ''nm01'', ''actor''],
           tsv [''tt0000001'', ''2'', ''nm02'', ''actress''],
           tsv [''tt0000001'', ''3'', ''nm03'', ''actor''],
           tsv [''tt0000001'', ''4'', ''nm04'', ''actor'']] EndOfFile)
          [(''nm01'', ''Ada''), (''nm02'', ''Bob''), (''nm03'', ''Cy''), (''nm04'', ''Di'')])
       [(''nm01'', ''Ada''), (''nm02'', ''Bob''), (''nm03'', ''Cy''), (''nm04'', ''Di'')] [] []
       (basics_row ''tt0000001'' ''movie'' ''0'' ''1999'')
     = Inr (Some \<lparr>m_tconst = ''tt0000001'', m_primary_title = ''Foo'', m_original = [],
         m_start_year = ''1999'', m_avg_rating = Finite False (17 / 2), m_num_votes = 1000,
         m_runtime_minutes = ''90'', m_genres_formatted = ''Drama|Comedy'',
         m_director_names = [''Ada'', ''Bob'', ''Cy''], m_writer_names = [''Bob''],
         m_cast = ''Ada, Bob, Cy'', m_language = [], m_country = [], m_is_adult = ''0''\<rparr>)
   \<and> length [''Ada'', ''Bob'', ''Cy''] \<le> 3
   \<and> dict_get (fold (principals_line
          [(''nm01'', ''Ada''), (''nm02'', ''Bob''), (''nm03'', ''Cy''), (''nm04'', ''Di'')])
        (take 4 (delivered (GzStream
          [tsv [''tt0000001'', ''1'', ''nm01'', ''actor''],
           tsv [''tt0000001'', ''2'', ''nm02'', ''actress''],
           tsv [''tt0000001'', ''3'', ''nm03'', ''actor''],
           tsv [''tt0000001'', ''4'', ''nm04'', ''actor'']] EndOfFile))) []) ''tt0000001''
      = Some [''Ada'', ''Bob'', ''Cy'']"
proof -
  let ?N = "[(''nm01'', ''Ada''), (''nm02'', ''Bob''), (''nm03'', ''Cy''), (''nm04'', ''Di'')]"
  let ?pf = "GzStream
          [tsv [''tt0000001'', ''1'', ''nm01'', ''actor''],
           tsv [''tt0000001'', ''2'', ''nm02'', ''actress''],
           tsv [''tt0000001'', ''3'', ''nm03'', ''actor''],
           tsv [''tt0000001'', ''4'', ''nm04'', ''actor'']] EndOfFile"
  let ?R = "[(''tt0000001'', (Finite False (17 / 2), 1000 :: int))]"
  let ?C = "[(''tt0000001'', (''nm01,nm02,nm03,nm04'', ''nm02''))]"
  let ?E = "[] :: (string, string) dict"
  let ?row = "basics_row ''tt0000001'' ''movie'' ''0'' ''1999''"
  let ?m = "\<lparr>m_tconst = ''tt0000001'', m_primary_title = ''Foo'', m_original = [],
         m_start_year = ''1999'', m_avg_rating = Finite False (17 / 2), m_num_votes = 1000,
         m_runtime_minutes = ''90'', m_genres_formatted = ''Drama|Comedy'',
         m_director_names = [''Ada'', ''Bob'', ''Cy''], m_writer_names = [''Bob''],
         m_cast = ''Ada, Bob, Cy'', m_language = [], m_country = [], m_is_adult = ''0''\<rparr>"
  have p: "parts_of (tsv [''tt0000001'', ''1'', ''nm01'', ''actor'']) = [''tt0000001'', ''1'', ''nm01'', ''actor'']"
    "parts_of (tsv [''tt0000001'', ''2'', ''nm02'', ''actress'']) = [''tt0000001'', ''2'', ''nm02'', ''actress'']"
    "parts_of (tsv [''tt0000001'', ''3'', ''nm03'', ''actor'']) = [''tt0000001'', ''3'', ''nm03'', ''actor'']"
    "parts_of (tsv [''tt0000001'', ''4'', ''nm04'', ''actor'']) = [''tt0000001'', ''4'', ''nm04'', ''actor'']"
    by (rule parts_of_tsv; simp add: row_eval)+
  have f: "fold (principals_line ?N) (take 4 (delivered ?pf)) [] = [(''tt0000001'', [''Ada'', ''Bob'', ''Cy''])]"
    by (simp add: p[THEN principals_line_parts] dict_in_def dict_set_def
        dict_get_def dict_get_default_def)
  then have lp: "load_principals ?pf ?N = [(''tt0000001'', ''Ada, Bob, Cy'')]"
    by (simp add: load_principals_def principals_pass_eq)
  have pr: "parts_of ?row =
      [''tt0000001'', ''movie'', ''Foo'', BACKSLASH_N, ''0'', ''1999'', BACKSLASH_N, ''90'',
       ''Drama,Comedy'']"
    by (rule parts_of_basics_row) (simp_all add: row_eval)
  have b: "basics_line ?R ?C (load_principals ?pf ?N) ?N ?E ?E ?row = Inr (Some ?m)"
    unfolding lp
    by (subst basics_line_parts[OF pr])
      (simp add: dict_in_def dict_get_def dict_get_default_def names_of_ids_def replace_char_def
        BACKSLASH_N_def)
  have g: "dict_get (fold (principals_line ?N) (take 4 (delivered ?pf)) []) ''tt0000001''
      = Some [''Ada'', ''Bob'', ''Cy'']"
    by (simp only: f) (simp add: dict_get_def)
  note inst = at_most_three_names [of ?R ?C "load_principals ?pf ?N" ?N ?E ?E ?row "[]" ?pf]
  from inst b have "length (m_director_names ?m) \<le> 3"
    by blast
  moreover from inst g have "length [''Ada'', ''Bob'', ''Cy''] \<le> 3"
    by blast
  ultimately show ?thesis
    using b g by simp
qed

section \<open>RatingsIndex\<close>














section \<open>Properties of the number conversions\<close>

lemma pow2_powi: "pow2 e = 2 powi e"
  by (simp add: pow2_def power_int_def power_one_over)

lemma pow2_pos: "0 < pow2 e"
  by (simp add: pow2_powi)

lemma pow2_add: "pow2 (x + y) = pow2 x * pow2 y"
  by (simp add: pow2_powi power_int_add)

lemma pow2_diff: "pow2 (x - y) = pow2 x / pow2 y"
  by (simp add: pow2_powi power_int_diff)

lemma bitlen_rat_bounds:
  assumes "0 < a"
  shows "pow2 (bitlen a - 1) \<le> of_int a" and "(of_int a :: rat) < pow2 (bitlen a)"
proof -
  from bitlen_bounds [OF assms]
  have 1: "2 ^ nat (bitlen a - 1) \<le> a" and 2: "a < 2 ^ nat (bitlen a)"
    by auto
  have b: "1 \<le> bitlen a"
    using assms by (simp add: bitlen_alt_def)
  from 1 have "(of_int (2 ^ nat (bitlen a - 1)) :: rat) \<le> of_int a"
    by (simp only: of_int_le_iff)
  with b show "pow2 (bitlen a - 1) \<le> of_int a"
    by (simp add: pow2_def)
  from 2 have "(of_int a :: rat) < of_int (2 ^ nat (bitlen a))"
    by (simp only: of_int_less_iff)
  with b show "(of_int a :: rat) < pow2 (bitlen a)"
    by (simp add: pow2_def)
qed

lemma floor_log2_bounds:
  assumes "0 < q"
  shows "pow2 (floor_log2 q) \<le> q \<and> q < pow2 (floor_log2 q + 1)"
proof -
  obtain a b where ab: "quotient_of q = (a, b)"
    by (cases "quotient_of q")
  then have b: "0 < b" and q: "q = of_int a / of_int b"
    by (simp_all add: quotient_of_denom_pos quotient_of_div)
  with assms have a: "0 < a"
    by (simp add: zero_less_divide_iff)
  let ?d = "bitlen a - bitlen b"
  note A = bitlen_rat_bounds [OF a] and B = bitlen_rat_bounds [OF b]
  have bpos: "(0::rat) < of_int b"
    using b by simp
  have up: "q < pow2 (?d + 1)"
  proof -
    have "q < pow2 (bitlen a) / pow2 (bitlen b - 1)"
      unfolding q using A(2) B(1) bpos pow2_pos [of "bitlen b - 1"]
      by (meson frac_less less_imp_le of_int_0_less_iff a)
    also have "\<dots> = pow2 (?d + 1)"
      by (simp add: pow2_diff [symmetric] algebra_simps)
    finally show ?thesis .
  qed
  have lo: "pow2 (?d - 1) \<le> q"
  proof -
    have "pow2 (bitlen a - 1) / pow2 (bitlen b) \<le> q"
      unfolding q using A(1) B(2) bpos pow2_pos [of "bitlen a - 1"]
      by (intro frac_le) simp_all
    moreover have "pow2 (bitlen a - 1) / pow2 (bitlen b) = pow2 (?d - 1)"
      by (simp add: pow2_diff [symmetric] algebra_simps)
    ultimately show ?thesis by simp
  qed
  show ?thesis
    using up lo by (auto simp: floor_log2_def ab Let_def not_le)
qed

lemma round_half_even_close: "\<bar>of_int (round_half_even x) - x\<bar> \<le> 1 / 2"
proof -
  have "of_int \<lfloor>x\<rfloor> \<le> x" and "x < of_int \<lfloor>x\<rfloor> + 1"
    by linarith+
  then show ?thesis
    by (auto simp: round_half_even_def Let_def abs_le_iff)
qed

end
